theory Spec2Isabelle
  imports Main "HOL-Library.Word"
begin

section \<open>The TCP network layer of examples/networklayer\_tcp.c\<close>

text \<open>
  The embedding follows the non-Windows, single-threaded build of the file: the
  \<^verbatim>\<open>#else\<close> branches of \<^verbatim>\<open>_WIN32\<close> and of
  \<^verbatim>\<open>UA_ENABLE_MULTITHREADING\<close>. Socket system calls are the environment: what they
  return is an argument of the model, and the calls that create, resolve, connect, shut down
  or release a socket are appended to a chronological list. Log output is left out, except in
  the client connector, where the warning is the only sign of which check failed.
\<close>

subsection \<open>Types declared in the headers\<close>

type_synonym byte = "8 word"

datatype UA_StatusCode =
    UA_STATUSCODE_GOOD
  | UA_STATUSCODE_BADCONNECTIONCLOSED
  | UA_STATUSCODE_BADOUTOFMEMORY
  | UA_STATUSCODE_BADINTERNALERROR
  | UA_STATUSCODE_BADCOMMUNICATIONERROR

datatype UA_ConnectionState =
    UA_CONNECTION_OPENING
  | UA_CONNECTION_ESTABLISHED
  | UA_CONNECTION_CLOSED

text \<open>Of the connection configuration the file reads only \<^verbatim>\<open>recvBufferSize\<close>.\<close>

record UA_ConnectionConfig =
  recvBufferSize :: nat

text \<open>
  \<^verbatim>\<open>UA_ByteString\<close>: a length and a data pointer. The pointer is \<open>None\<close> when it is
  NULL and otherwise holds the whole allocated block, so the allocation size is the length
  of the block and may differ from the length field.
\<close>

record UA_ByteString =
  length_bs :: int
  data_bs :: "byte list option"

text \<open>The \<^verbatim>\<open>close\<close> function pointer of a connection is one of the two callbacks of the file.\<close>

datatype close_callback = ServerClose | ClientClose

record UA_Connection =
  state :: UA_ConnectionState
  localConf :: UA_ConnectionConfig
  remoteConf :: UA_ConnectionConfig
  sockfd :: int
  close_cb :: close_callback

text \<open>The calls made to the operating system, in the order they are made.\<close>

datatype syscall =
    SHUTDOWN int
  | CLOSESOCKET int
  | SOCKET
  | GETHOSTBYNAME string
  | CONNECT int int

text \<open>Values of \<^verbatim>\<open>errno.h\<close> on Linux, where \<^verbatim>\<open>EWOULDBLOCK\<close> is \<^verbatim>\<open>EAGAIN\<close>.\<close>

definition EINTR :: int where "EINTR = 4"
definition EAGAIN :: int where "EAGAIN = 11"
definition EWOULDBLOCK :: int where "EWOULDBLOCK = 11"
definition ERANGE :: int where "ERANGE = 34"

text \<open>
  Modelled from the spec: \<^verbatim>\<open>UA_ByteString_deleteMembers\<close> is defined outside this file.
  The spec calls it releasing the buffer and calls what is left an empty result: the data
  is freed and the byte string is empty.
\<close>

definition UA_ByteString_deleteMembers :: "UA_ByteString \<Rightarrow> UA_ByteString" where
  "UA_ByteString_deleteMembers buf = \<lparr>length_bs = 0, data_bs = None\<rparr>"

text \<open>
  Modelled from the spec: \<^verbatim>\<open>UA_ByteString_allocBuffer\<close> is defined outside this file.
  It allocates a block of the requested size; the flag says whether the allocator had memory
  (the block's content is not initialised and is written as zeros).
\<close>

definition UA_ByteString_allocBuffer ::
  "bool \<Rightarrow> UA_ByteString \<Rightarrow> nat \<Rightarrow> UA_StatusCode \<times> UA_ByteString" where
  "UA_ByteString_allocBuffer mem buf len =
     (if mem then (UA_STATUSCODE_GOOD, \<lparr>length_bs = int len, data_bs = Some (replicate len 0)\<rparr>)
      else (UA_STATUSCODE_BADOUTOFMEMORY, buf))"

subsection \<open>Generic socket functions\<close>

text \<open>\<^verbatim>\<open>socket_close\<close>: no test of the state; the socket is shut down and the descriptor released.\<close>

definition socket_close :: "UA_Connection \<times> syscall list \<Rightarrow> UA_Connection \<times> syscall list" where
  "socket_close w =
     (case w of (connection, sys) \<Rightarrow>
        (connection\<lparr>state := UA_CONNECTION_CLOSED\<rparr>,
         sys @ [SHUTDOWN (sockfd connection), CLOSESOCKET (sockfd connection)]))"

text \<open>
  \<^verbatim>\<open>ServerNetworkLayerTCP_closeConnection\<close>, the callback triggered from the server: a
  connection that is already closed is left alone; otherwise the state is set and the socket
  is only shut down.
\<close>

definition ServerNetworkLayerTCP_closeConnection ::
  "UA_Connection \<times> syscall list \<Rightarrow> UA_Connection \<times> syscall list" where
  "ServerNetworkLayerTCP_closeConnection w =
     (case w of (connection, sys) \<Rightarrow>
        if state connection = UA_CONNECTION_CLOSED then (connection, sys)
        else (connection\<lparr>state := UA_CONNECTION_CLOSED\<rparr>, sys @ [SHUTDOWN (sockfd connection)]))"

text \<open>\<^verbatim>\<open>ClientNetworkLayerClose\<close>: the same guard, then \<^verbatim>\<open>socket_close\<close>.\<close>

definition ClientNetworkLayerClose ::
  "UA_Connection \<times> syscall list \<Rightarrow> UA_Connection \<times> syscall list" where
  "ClientNetworkLayerClose w =
     (case w of (connection, sys) \<Rightarrow>
        if state connection = UA_CONNECTION_CLOSED then (connection, sys)
        else socket_close (connection\<lparr>state := UA_CONNECTION_CLOSED\<rparr>, sys))"

text \<open>The call \<^verbatim>\<open>connection->close(connection)\<close> through the function pointer.\<close>

definition call_close :: "UA_Connection \<times> syscall list \<Rightarrow> UA_Connection \<times> syscall list" where
  "call_close w =
     (case close_cb (fst w) of
        ServerClose \<Rightarrow> ServerNetworkLayerTCP_closeConnection w
      | ClientClose \<Rightarrow> ClientNetworkLayerClose w)"

text \<open>
  A close request reaches a server connection either through the owner's callback or from
  the network loop, whose \<^verbatim>\<open>socket_recv\<close> calls \<^verbatim>\<open>socket_close\<close> when it finds the
  socket closed.
\<close>

datatype close_request = OwnerCallback | LoopDetected

fun do_close_request :: "close_request \<Rightarrow> UA_Connection \<times> syscall list \<Rightarrow> UA_Connection \<times> syscall list" where
  "do_close_request OwnerCallback w = ServerNetworkLayerTCP_closeConnection w"
| "do_close_request LoopDetected w = socket_close w"

fun close_requests :: "close_request list \<Rightarrow> UA_Connection \<times> syscall list \<Rightarrow> UA_Connection \<times> syscall list" where
  "close_requests [] w = w"
| "close_requests (r # rs) w = close_requests rs (do_close_request r w)"

text \<open>The number of requests of a sequence at which the state changes to closed.\<close>

fun closed_transitions :: "close_request list \<Rightarrow> UA_Connection \<times> syscall list \<Rightarrow> nat" where
  "closed_transitions [] w = 0"
| "closed_transitions (r # rs) w =
     (if state (fst w) \<noteq> UA_CONNECTION_CLOSED \<and> state (fst (do_close_request r w)) = UA_CONNECTION_CLOSED
      then 1 else 0) + closed_transitions rs (do_close_request r w)"

definition shutdowns :: "int \<Rightarrow> syscall list \<Rightarrow> nat" where
  "shutdowns fd sys = length (filter (\<lambda>e. e = SHUTDOWN fd) sys)"

definition releases :: "int \<Rightarrow> syscall list \<Rightarrow> nat" where
  "releases fd sys = length (filter (\<lambda>e. e = CLOSESOCKET fd) sys)"


text \<open>
  \<^verbatim>\<open>socket_write\<close>. Each call of \<^verbatim>\<open>send\<close> takes its outcome from the head of a
  list: \<open>Sent n\<close> when the kernel accepted \<open>n\<close> bytes, \<open>SendFailed e\<close> when it returned
  \<open>-1\<close> with \<^verbatim>\<open>errno\<close> \<open>e\<close>. The function returns \<open>None\<close> when the outcomes are used up
  before the loops end. The bytes the kernel accepted are appended to the wire.

  The call is \<^verbatim>\<open>send(sockfd, buf->data, buf->length, MSG_NOSIGNAL)\<close>: the kernel reads from
  the start of the block and at most \<^verbatim>\<open>buf->length\<close> bytes. The inner
  \<^verbatim>\<open>do ... while(n == -1)\<close> repeats the call with \<open>nWritten\<close> unchanged, so both loops are
  one recursion.
\<close>

datatype send_result = Sent nat | SendFailed int

record write_result =
  wr_status :: UA_StatusCode
  wr_buf :: UA_ByteString
  wr_connection :: UA_Connection
  wr_sys :: "syscall list"
  wr_wire :: "byte list"

definition send_bytes :: "UA_ByteString \<Rightarrow> nat \<Rightarrow> byte list" where
  "send_bytes buf n =
     take n (take (nat (length_bs buf)) (case data_bs buf of None \<Rightarrow> [] | Some block \<Rightarrow> block))"

fun socket_write_loop ::
  "send_result list \<Rightarrow> UA_Connection \<times> syscall list \<Rightarrow> UA_ByteString \<Rightarrow> nat \<Rightarrow> byte list
     \<Rightarrow> write_result option" where
  "socket_write_loop [] w buf nWritten wire =
     (if length_bs buf > 0 \<and> nWritten < nat (length_bs buf) then None
      else Some \<lparr>wr_status = UA_STATUSCODE_GOOD, wr_buf = UA_ByteString_deleteMembers buf,
                 wr_connection = fst w, wr_sys = snd w, wr_wire = wire\<rparr>)"
| "socket_write_loop (r # rs) w buf nWritten wire =
     (if length_bs buf > 0 \<and> nWritten < nat (length_bs buf) then
        (case r of
           SendFailed e \<Rightarrow>
             if e \<noteq> EINTR \<and> e \<noteq> EAGAIN then
               (case socket_close (call_close w) of (connection, sys) \<Rightarrow>
                  Some \<lparr>wr_status = UA_STATUSCODE_BADCONNECTIONCLOSED,
                        wr_buf = UA_ByteString_deleteMembers buf,
                        wr_connection = connection, wr_sys = sys, wr_wire = wire\<rparr>)
             else socket_write_loop rs w buf nWritten wire
         | Sent n \<Rightarrow> socket_write_loop rs w buf (nWritten + n) (wire @ send_bytes buf n))
      else Some \<lparr>wr_status = UA_STATUSCODE_GOOD, wr_buf = UA_ByteString_deleteMembers buf,
                 wr_connection = fst w, wr_sys = snd w, wr_wire = wire\<rparr>)"

definition socket_write ::
  "send_result list \<Rightarrow> UA_Connection \<times> syscall list \<Rightarrow> UA_ByteString \<Rightarrow> write_result option" where
  "socket_write sends w buf = socket_write_loop sends w buf 0 []"

text \<open>
  \<^verbatim>\<open>socket_recv\<close>. The environment says whether \<^verbatim>\<open>malloc\<close> had memory, what
  \<^verbatim>\<open>setsockopt\<close> returned, what \<^verbatim>\<open>recv\<close> returned and wrote, and the value of
  \<^verbatim>\<open>errno\<close> after it. The block is \<^verbatim>\<open>recvBufferSize\<close> bytes long (not initialised,
  written as zeros); \<^verbatim>\<open>recv\<close> writes its bytes at the start of it.
\<close>

record recv_env =
  re_malloc :: bool
  re_setsockopt :: int
  re_recv :: int
  re_data :: "byte list"
  re_errno :: int

definition recv_into :: "byte list \<Rightarrow> byte list \<Rightarrow> byte list" where
  "recv_into block bytes = take (length block) (bytes @ drop (length bytes) block)"

definition socket_recv ::
  "recv_env \<Rightarrow> UA_Connection \<times> syscall list \<Rightarrow> UA_ByteString \<Rightarrow> nat
     \<Rightarrow> UA_StatusCode \<times> UA_ByteString \<times> (UA_Connection \<times> syscall list)" where
  "socket_recv env w response timeout =
     (if \<not> re_malloc env then
        (UA_STATUSCODE_BADOUTOFMEMORY, response\<lparr>length_bs := 0, data_bs := None\<rparr>, w)
      else
        let block = replicate (recvBufferSize (localConf (fst w))) 0;
            response = response\<lparr>data_bs := Some block\<rparr>
        in
        if timeout > 0 \<and> re_setsockopt env \<noteq> 0 then
          (UA_STATUSCODE_BADCONNECTIONCLOSED, UA_ByteString_deleteMembers response, socket_close w)
        else
          let ret = re_recv env in
          if ret = 0 then
            (UA_STATUSCODE_BADCONNECTIONCLOSED, UA_ByteString_deleteMembers response, socket_close w)
          else if ret < 0 then
            (if re_errno env = EINTR \<or> re_errno env = EAGAIN \<or> re_errno env = EWOULDBLOCK then
               (UA_STATUSCODE_GOOD, UA_ByteString_deleteMembers response, w)
             else
               (UA_STATUSCODE_BADCONNECTIONCLOSED, UA_ByteString_deleteMembers response, socket_close w))
          else
            (UA_STATUSCODE_GOOD,
             response\<lparr>length_bs := ret, data_bs := Some (recv_into block (re_data env))\<rparr>, w))"

subsection \<open>Server network layer\<close>

text \<open>
  \<^verbatim>\<open>ServerNetworkLayerGetSendBuffer\<close> and, from the client part of the file,
  \<^verbatim>\<open>ClientNetworkLayerGetBuffer\<close>. The flag is the allocator's.
\<close>

definition ServerNetworkLayerGetSendBuffer ::
  "bool \<Rightarrow> UA_Connection \<Rightarrow> nat \<Rightarrow> UA_ByteString \<Rightarrow> UA_StatusCode \<times> UA_ByteString" where
  "ServerNetworkLayerGetSendBuffer mem connection len buf =
     (if len > recvBufferSize (remoteConf connection) then (UA_STATUSCODE_BADCOMMUNICATIONERROR, buf)
      else UA_ByteString_allocBuffer mem buf len)"

definition ClientNetworkLayerGetBuffer ::
  "bool \<Rightarrow> UA_Connection \<Rightarrow> nat \<Rightarrow> UA_ByteString \<Rightarrow> UA_StatusCode \<times> UA_ByteString" where
  "ClientNetworkLayerGetBuffer mem connection len buf =
     (if len > recvBufferSize (remoteConf connection) then (UA_STATUSCODE_BADCOMMUNICATIONERROR, buf)
      else if state connection = UA_CONNECTION_CLOSED then (UA_STATUSCODE_BADCONNECTIONCLOSED, buf)
      else UA_ByteString_allocBuffer mem buf (recvBufferSize (remoteConf connection)))"

text \<open>
  The layer: a connection is a pointer (a number) into the memory, and the table
  \<^verbatim>\<open>mappings\<close> holds pairs of a connection pointer and its socket; \<^verbatim>\<open>mappingsSize\<close> is the
  length of the list.
\<close>

record ServerNetworkLayerTCP =
  conf :: UA_ConnectionConfig
  serversockfd :: int
  mappings :: "(nat \<times> int) list"

record server_world =
  layer :: ServerNetworkLayerTCP
  heap :: "nat \<Rightarrow> UA_Connection"
  sys :: "syscall list"

datatype job_method = FreeConnectionCallback

datatype UA_Job =
    BINARYMESSAGE_NETWORKLAYER nat UA_ByteString
  | BINARYMESSAGE_ALLOCATED nat UA_ByteString
  | DETACHCONNECTION nat
  | METHODCALL_DELAYED job_method nat

text \<open>
  What one call of \<^verbatim>\<open>getJobs\<close> meets: the result of \<^verbatim>\<open>select\<close> and the descriptors it
  left in the set, the result of \<^verbatim>\<open>accept\<close>, the allocations, for every connection the
  outcome of the receive on its socket, and the external \<^verbatim>\<open>UA_Connection_completeMessages\<close>
  (status, buffer, reallocated). \<^verbatim>\<open>UA_Connection_init\<close> is outside the file; what it leaves
  in a connection is \<open>ge_init\<close>.
\<close>

record getJobs_env =
  ge_select :: int
  ge_fdset :: "int set"
  ge_accept :: int
  ge_malloc_connection :: "nat option"
  ge_realloc :: bool
  ge_malloc_jobs :: bool
  ge_recv :: "nat \<Rightarrow> recv_env"
  ge_complete :: "nat \<Rightarrow> UA_ByteString \<Rightarrow> UA_StatusCode \<times> UA_ByteString \<times> bool"
  ge_init :: UA_Connection

definition ServerNetworkLayerTCP_add ::
  "getJobs_env \<Rightarrow> server_world \<Rightarrow> int \<Rightarrow> UA_StatusCode \<times> server_world" where
  "ServerNetworkLayerTCP_add env w newsockfd =
     (case ge_malloc_connection env of
        None \<Rightarrow> (UA_STATUSCODE_BADINTERNALERROR, w)
      | Some c \<Rightarrow>
          let connection = (ge_init env)\<lparr>sockfd := newsockfd, localConf := conf (layer w),
                 close_cb := ServerClose, state := UA_CONNECTION_OPENING\<rparr>
          in
          if \<not> ge_realloc env then (UA_STATUSCODE_BADINTERNALERROR, w)
          else (UA_STATUSCODE_GOOD,
                w\<lparr>layer := (layer w)\<lparr>mappings := mappings (layer w) @ [(c, newsockfd)]\<rparr>,
                  heap := (heap w)(c := connection)\<rparr>))"

text \<open>
  Modelled from the spec: the macro \<^verbatim>\<open>UA_BYTESTRING_NULL\<close> is defined outside this file;
  it is the empty byte string, without data.
\<close>

definition UA_BYTESTRING_NULL :: UA_ByteString where
  "UA_BYTESTRING_NULL = \<lparr>length_bs = 0, data_bs = None\<rparr>"

text \<open>
  The body of the loop over the table in \<^verbatim>\<open>getJobs\<close>, for entry \<open>i\<close>. The jobs written so
  far are the list \<open>js\<close>, and the counter \<open>j\<close> of the source is its length. Removal from
  the table copies the last entry over entry \<open>i\<close> and shortens the table by one.
\<close>

definition getJobs_entry ::
  "getJobs_env \<Rightarrow> nat \<Rightarrow> server_world \<times> UA_ByteString \<times> UA_Job list
     \<Rightarrow> server_world \<times> UA_ByteString \<times> UA_Job list" where
  "getJobs_entry env i st =
     (case st of (w, buf, js) \<Rightarrow>
        let c = fst (mappings (layer w) ! i); fd = snd (mappings (layer w) ! i) in
        if fd \<notin> ge_fdset env then (w, buf, js)
        else
          (case socket_recv (ge_recv env c) (heap w c, sys w) buf 0 of
             (retval, buf1, (connection, sys1)) \<Rightarrow>
               let w1 = w\<lparr>heap := (heap w)(c := connection), sys := sys1\<rparr> in
               if retval = UA_STATUSCODE_GOOD then
                 (case ge_complete env c buf1 of
                    (retval2, buf2, realloced) \<Rightarrow>
                      if retval2 \<noteq> UA_STATUSCODE_GOOD \<or> length_bs buf2 = 0 then (w1, buf2, js)
                      else (w1, buf2,
                            js @ [if \<not> realloced then BINARYMESSAGE_NETWORKLAYER c buf2
                                  else BINARYMESSAGE_ALLOCATED c buf2]))
               else if retval = UA_STATUSCODE_BADCONNECTIONCLOSED then
                 (w1\<lparr>layer := (layer w1)\<lparr>mappings :=
                        butlast ((mappings (layer w1))[i := last (mappings (layer w1))])\<rparr>\<rparr>,
                  buf1,
                  js @ [DETACHCONNECTION c, METHODCALL_DELAYED FreeConnectionCallback c])
               else (w1, buf1, js)))"

text \<open>
  The loop \<^verbatim>\<open>for(i = 0; i < layer->mappingsSize && j < (size_t)resultsize; i++)\<close>. The
  table never grows inside it, which is why it ends.
\<close>

function getJobs_loop ::
  "getJobs_env \<Rightarrow> nat \<Rightarrow> nat \<Rightarrow> server_world \<times> UA_ByteString \<times> UA_Job list
     \<Rightarrow> server_world \<times> UA_ByteString \<times> UA_Job list" where
  "getJobs_loop env resultsize i st =
     (if i < length (mappings (layer (fst st))) \<and> length (snd (snd st)) < resultsize
      then getJobs_loop env resultsize (i + 1) (getJobs_entry env i st)
      else st)"
  by pat_completeness auto
termination
proof (relation "measure (\<lambda>(env, resultsize, i, st). length (mappings (layer (fst st))) - i)")
  show "wf (measure (\<lambda>(env, resultsize, i, st). length (mappings (layer (fst st))) - i))"
    by simp
next
  fix env :: getJobs_env and resultsize i :: nat
    and st :: "server_world \<times> UA_ByteString \<times> UA_Job list"
  assume a: "i < length (mappings (layer (fst st))) \<and> length (snd (snd st)) < resultsize"
  have "length (mappings (layer (fst (getJobs_entry env i st)))) \<le> length (mappings (layer (fst st)))"
    by (cases st) (simp add: getJobs_entry_def Let_def split: prod.splits)
  with a show "((env, resultsize, i + 1, getJobs_entry env i st), (env, resultsize, i, st))
      \<in> measure (\<lambda>(env, resultsize, i, st). length (mappings (layer (fst st))) - i)"
    by simp arith
qed

text \<open>The cast \<^verbatim>\<open>(size_t)resultsize\<close> of a 32-bit signed value on a 64-bit platform.\<close>

definition size_t_of :: "int \<Rightarrow> nat" where
  "size_t_of n = nat (n mod 2 ^ 64)"

text \<open>
  \<^verbatim>\<open>ServerNetworkLayerTCP_getJobs\<close>: the world after the call and the jobs handed to the
  caller (the return value is their number). A negative \<^verbatim>\<open>select\<close>, no ready socket left
  after the accept, and a failed allocation of the job array all return no jobs.
\<close>

definition ServerNetworkLayerTCP_getJobs ::
  "getJobs_env \<Rightarrow> server_world \<Rightarrow> server_world \<times> UA_Job list" where
  "ServerNetworkLayerTCP_getJobs env w =
     (let resultsize = ge_select env in
      if resultsize < 0 then (w, [])
      else
        let accepting = serversockfd (layer w) \<in> ge_fdset env;
            resultsize = (if accepting then resultsize - 1 else resultsize);
            w = (if accepting \<and> ge_accept env \<ge> 0
                 then snd (ServerNetworkLayerTCP_add env w (ge_accept env)) else w)
        in
        if resultsize = 0 then (w, [])
        else if \<not> ge_malloc_jobs env then (w, [])
        else
          (case getJobs_loop env (size_t_of resultsize) 0 (w, UA_BYTESTRING_NULL, []) of
             (w1, buf, js) \<Rightarrow> (w1, js)))"

text \<open>
  \<^verbatim>\<open>ServerNetworkLayerTCP_stop\<close>: the listening socket is shut down and released, then the
  job array is allocated (the flag); without memory the function returns no jobs. The loop
  walks the table in order and leaves it as it is.
\<close>

fun stop_loop ::
  "(nat \<times> int) list \<Rightarrow> (nat \<Rightarrow> UA_Connection) \<times> syscall list \<times> UA_Job list
     \<Rightarrow> (nat \<Rightarrow> UA_Connection) \<times> syscall list \<times> UA_Job list" where
  "stop_loop [] st = st"
| "stop_loop (m # ms) (h, sy, items) =
     (case socket_close (h (fst m), sy) of
        (connection, sy1) \<Rightarrow>
          stop_loop ms (h(fst m := connection), sy1,
            items @ [DETACHCONNECTION (fst m), METHODCALL_DELAYED FreeConnectionCallback (fst m)]))"

definition ServerNetworkLayerTCP_stop ::
  "bool \<Rightarrow> server_world \<Rightarrow> server_world \<times> UA_Job list" where
  "ServerNetworkLayerTCP_stop mem w =
     (let sy = sys w @ [SHUTDOWN (serversockfd (layer w)), CLOSESOCKET (serversockfd (layer w))] in
      if \<not> mem then (w\<lparr>sys := sy\<rparr>, [])
      else
        (case stop_loop (mappings (layer w)) (heap w, sy, []) of
           (h, sy1, items) \<Rightarrow> (w\<lparr>heap := h, sys := sy1\<rparr>, items)))"

subsection \<open>Client network layer\<close>

text \<open>
  The C library's \<^verbatim>\<open>strtoul\<close> with base 10, for a 64-bit \<^verbatim>\<open>unsigned long\<close>: white space
  is skipped, one sign is accepted, then the longest run of digits is read. Without a digit
  nothing is converted: the value is 0 and the end pointer is the start. A value above
  \<^verbatim>\<open>ULONG_MAX\<close> gives \<^verbatim>\<open>ULONG_MAX\<close> and sets \<^verbatim>\<open>errno\<close> to \<^verbatim>\<open>ERANGE\<close>; a minus sign
  negates the value in the unsigned type. The end pointer is given as an offset from the
  start of the string.
\<close>

definition ULONG_MAX :: int where "ULONG_MAX = 2 ^ 64 - 1"
definition UINT16_MAX :: int where "UINT16_MAX = 65535"

definition isspace_c :: "char \<Rightarrow> bool" where
  "isspace_c c = (of_char c = (32::int) \<or> ((9::int) \<le> of_char c \<and> of_char c \<le> (13::int)))"

definition isdigit_c :: "char \<Rightarrow> bool" where
  "isdigit_c c = ((48::int) \<le> of_char c \<and> of_char c \<le> (57::int))"

definition digits_value :: "string \<Rightarrow> int" where
  "digits_value ds = foldl (\<lambda>a d. a * 10 + (of_char d - 48)) 0 ds"

record strtoul_result =
  st_value :: int
  st_end :: nat
  st_erange :: bool

definition strtoul :: "string \<Rightarrow> strtoul_result" where
  "strtoul nptr =
     (let rest = dropWhile isspace_c nptr;
          neg = (rest \<noteq> [] \<and> hd rest = CHR ''-'');
          signed = (rest \<noteq> [] \<and> (hd rest = CHR ''-'' \<or> hd rest = CHR ''+''));
          body = (if signed then tl rest else rest);
          ds = takeWhile isdigit_c body
      in
      if ds = [] then \<lparr>st_value = 0, st_end = 0, st_erange = False\<rparr>
      else
        let v = digits_value ds;
            e = length nptr - length body + length ds
        in
        if v > ULONG_MAX then \<lparr>st_value = ULONG_MAX, st_end = e, st_erange = True\<rparr>
        else \<lparr>st_value = (if neg then (2 ^ 64 - v) mod 2 ^ 64 else v), st_end = e,
               st_erange = False\<rparr>)"

text \<open>
  The scan for the port in \<^verbatim>\<open>ClientNetworkLayerTCP_connect\<close>, from position
  \<open>portpos\<close>: the position where the scan stopped and the port. \<^verbatim>\<open>errno\<close> is not reset
  before \<^verbatim>\<open>strtoul\<close>, so its value from before the call is an argument; \<^verbatim>\<open>strtoul\<close> only
  ever sets it to \<^verbatim>\<open>ERANGE\<close>.
\<close>

function port_scan :: "string \<Rightarrow> int \<Rightarrow> nat \<Rightarrow> nat \<times> int" where
  "port_scan endpointUrl errno portpos =
     (if portpos < length endpointUrl - 1 then
        if endpointUrl ! portpos = CHR '':'' then
          (let r = strtoul (drop (portpos + 1) endpointUrl);
               errno1 = (if st_erange r then ERANGE else errno)
           in
           if ERANGE \<noteq> errno1 \<and> st_value r < UINT16_MAX \<and> st_end r \<noteq> 0
           then (portpos, st_value r mod 2 ^ 16)
           else (portpos, 0))
        else port_scan endpointUrl errno (portpos + 1)
      else (portpos, 0))"
  by pat_completeness auto
termination
  by (relation "measure (\<lambda>(endpointUrl, errno, portpos). length endpointUrl - 1 - portpos)") auto

text \<open>
  \<^verbatim>\<open>ClientNetworkLayerTCP_connect\<close> returns only the connection. The model also gives the
  warnings logged and the system calls made. The environment: \<^verbatim>\<open>errno\<close> on entry, the
  results of \<^verbatim>\<open>socket\<close>, \<^verbatim>\<open>gethostbyname\<close> (whether the name resolves) and
  \<^verbatim>\<open>connect\<close>, and what \<^verbatim>\<open>UA_Connection_init\<close> leaves in a connection. The host
  name is the text between position 10 and the colon. \<^verbatim>\<open>SO_NOSIGPIPE\<close> is not defined on
  Linux, so the block that sets it is not compiled.
\<close>

record connect_env =
  ce_errno :: int
  ce_socket :: int
  ce_gethostbyname :: "string \<Rightarrow> bool"
  ce_connect :: int
  ce_init :: UA_Connection

definition ClientNetworkLayerTCP_connect ::
  "connect_env \<Rightarrow> UA_ConnectionConfig \<Rightarrow> string \<Rightarrow> UA_Connection \<times> string list \<times> syscall list" where
  "ClientNetworkLayerTCP_connect env localConf1 endpointUrl =
     (let connection = (ce_init env)\<lparr>localConf := localConf1, close_cb := ClientClose\<rparr>;
          urlLength = length endpointUrl
      in
      if urlLength < 11 \<or> urlLength \<ge> 512 then
        (connection, [''Server url size invalid''], [])
      else if take 10 endpointUrl \<noteq> ''opc.tcp://'' then
        (connection, [''Server url does not begin with opc.tcp://''], [])
      else
        (case port_scan endpointUrl (ce_errno env) 9 of
           (portpos, port) \<Rightarrow>
             if port = 0 then (connection, [''Port invalid''], [])
             else
               let hostname = take (portpos - 10) (drop 10 endpointUrl);
                   connection = connection\<lparr>sockfd := ce_socket env\<rparr>
               in
               if ce_socket env = - 1 then
                 (connection, [''Could not create socket''], [SOCKET])
               else if \<not> ce_gethostbyname env hostname then
                 (connection, [''DNS lookup of '' @ hostname @ '' failed''],
                  [SOCKET, GETHOSTBYNAME hostname])
               else
                 let connection = connection\<lparr>state := UA_CONNECTION_OPENING\<rparr>;
                     sy = [SOCKET, GETHOSTBYNAME hostname, CONNECT (ce_socket env) port]
                 in
                 if ce_connect env < 0 then
                   (case ClientNetworkLayerClose (connection, sy) of
                      (connection1, sy1) \<Rightarrow> (connection1, [''Connection failed''], sy1))
                 else (connection, [], sy)))"

subsection \<open>Concrete inputs\<close>

text \<open>An established server-side connection on descriptor 5.\<close>

definition example_connection :: UA_Connection where
  "example_connection =
     \<lparr>state = UA_CONNECTION_ESTABLISHED, localConf = \<lparr>recvBufferSize = 8\<rparr>,
      remoteConf = \<lparr>recvBufferSize = 16\<rparr>, sockfd = 5, close_cb = ServerClose\<rparr>"

text \<open>The four bytes of \<^verbatim>\<open>abcd\<close> in a send buffer.\<close>

definition example_buffer :: UA_ByteString where
  "example_buffer = \<lparr>length_bs = 4, data_bs = Some [97, 98, 99, 100]\<rparr>"

text \<open>A receive that reads three bytes into the eight-byte buffer of the example connection.\<close>

definition example_recv_env :: recv_env where
  "example_recv_env =
     \<lparr>re_malloc = True, re_setsockopt = 0, re_recv = 3, re_data = [1, 2, 3], re_errno = 0\<rparr>"

text \<open>
  A client environment: \<^verbatim>\<open>errno\<close> is 0, \<^verbatim>\<open>socket\<close> returns descriptor 3, every name
  resolves, and \<^verbatim>\<open>connect\<close> fails.
\<close>

definition example_connect_env :: connect_env where
  "example_connect_env =
     \<lparr>ce_errno = 0, ce_socket = 3, ce_gethostbyname = (\<lambda>hostname. True), ce_connect = - 1,
      ce_init = \<lparr>state = UA_CONNECTION_CLOSED, localConf = \<lparr>recvBufferSize = 0\<rparr>,
                 remoteConf = \<lparr>recvBufferSize = 0\<rparr>, sockfd = - 1, close_cb = ClientClose\<rparr>\<rparr>"

text \<open>
  A server with its listening socket on descriptor 3 and three connections in the table:
  connection \<open>c\<close> is on descriptor \<open>4 + c\<close>.
\<close>

definition example_world :: server_world where
  "example_world =
     \<lparr>layer = \<lparr>conf = \<lparr>recvBufferSize = 8\<rparr>, serversockfd = 3,
               mappings = [(1, 5), (2, 6), (3, 7)]\<rparr>,
      heap = (\<lambda>c. example_connection\<lparr>sockfd := 4 + int c\<rparr>),
      sys = []\<rparr>"

text \<open>
  One call of \<^verbatim>\<open>getJobs\<close> on the example server: \<^verbatim>\<open>select\<close> reports the three
  connection sockets, nothing is accepted, the receive on connection 1 reads zero bytes and
  the receive on the other connections reads three bytes, which the message reassembly
  hands back as one complete message in the same buffer.
\<close>

definition example_getJobs_env :: getJobs_env where
  "example_getJobs_env =
     \<lparr>ge_select = 3, ge_fdset = {5, 6, 7}, ge_accept = - 1, ge_malloc_connection = None,
      ge_realloc = True, ge_malloc_jobs = True,
      ge_recv = (\<lambda>c. if c = 1 then example_recv_env\<lparr>re_recv := 0, re_data := []\<rparr>
                      else example_recv_env),
      ge_complete = (\<lambda>c buf. (UA_STATUSCODE_GOOD, buf, False)),
      ge_init = example_connection\<rparr>"

text \<open>The same call when the receive on every connection reads zero bytes.\<close>

definition example_closed_env :: getJobs_env where
  "example_closed_env =
     example_getJobs_env\<lparr>ge_recv := (\<lambda>c. example_recv_env\<lparr>re_recv := 0, re_data := []\<rparr>)\<rparr>"

text \<open>
  The property of the table and the jobs that the loop of \<^verbatim>\<open>getJobs\<close> keeps: every
  detach job is directly followed by the delayed call that frees the same connection, and
  the connection is not in the table.
\<close>

definition detached_gone :: "(nat \<times> int) list \<Rightarrow> UA_Job list \<Rightarrow> bool" where
  "detached_gone ms js =
     (\<forall>k c. k < length js \<and> js ! k = DETACHCONNECTION c \<longrightarrow>
        Suc k < length js \<and> js ! Suc k = METHODCALL_DELAYED FreeConnectionCallback c \<and>
        c \<notin> fst ` set ms)"

text \<open>The connections of the detach jobs of a job list, in the order of the jobs.\<close>

fun detached :: "UA_Job list \<Rightarrow> nat list" where
  "detached [] = []"
| "detached (DETACHCONNECTION c # js) = c # detached js"
| "detached (j # js) = detached js"

text \<open>
  What \<^verbatim>\<open>socket_close\<close> appends to the list of system calls for each connection of a
  list, read from a memory.
\<close>

definition close_calls :: "(nat \<Rightarrow> UA_Connection) \<Rightarrow> nat list \<Rightarrow> syscall list" where
  "close_calls h cs = concat (map (\<lambda>c. [SHUTDOWN (sockfd (h c)), CLOSESOCKET (sockfd (h c))]) cs)"

text \<open>
  The position of the first entry of connection \<open>c\<close> in a table, and the table without
  that entry, removed the way the loop removes it: the last entry is copied over it and the
  table is shortened by one.
\<close>

fun index_of :: "nat \<Rightarrow> (nat \<times> int) list \<Rightarrow> nat" where
  "index_of c [] = 0"
| "index_of c (m # ms) = (if fst m = c then 0 else Suc (index_of c ms))"

definition swap_with_last :: "nat \<Rightarrow> (nat \<times> int) list \<Rightarrow> (nat \<times> int) list" where
  "swap_with_last c ms = butlast (ms[index_of c ms := last ms])"

section \<open>Closing a connection\<close>

lemma closed_run:
  "close_requests rs (c\<lparr>state := UA_CONNECTION_CLOSED\<rparr>, sy) =
     (c\<lparr>state := UA_CONNECTION_CLOSED\<rparr>,
      sy @ concat (map (\<lambda>r. if r = LoopDetected then [SHUTDOWN (sockfd c), CLOSESOCKET (sockfd c)] else []) rs))"
proof (induction rs arbitrary: sy)
  case Nil
  then show ?case by simp
next
  case (Cons r rs)
  show ?case
    by (cases r) (simp_all add: Cons ServerNetworkLayerTCP_closeConnection_def socket_close_def)
qed

lemma closed_no_transition:
  "state (fst w) = UA_CONNECTION_CLOSED \<Longrightarrow> closed_transitions rs w = 0"
proof (induction rs arbitrary: w)
  case Nil
  then show ?case by simp
next
  case (Cons r rs)
  have "state (fst (do_close_request r w)) = UA_CONNECTION_CLOSED"
    using Cons.prems
    by (cases r; cases w) (simp_all add: ServerNetworkLayerTCP_closeConnection_def socket_close_def)
  with Cons show ?case by simp
qed

lemma shutdowns_events:
  "shutdowns fd (sy @ concat (map (\<lambda>r. if r = LoopDetected then [SHUTDOWN fd, CLOSESOCKET fd] else []) rs))
     = shutdowns fd sy + count_list rs LoopDetected"
  by (induction rs arbitrary: sy) (simp_all add: shutdowns_def)

lemma releases_events:
  "releases fd (sy @ concat (map (\<lambda>r. if r = LoopDetected then [SHUTDOWN fd, CLOSESOCKET fd] else []) rs))
     = releases fd sy + count_list rs LoopDetected"
  by (induction rs arbitrary: sy) (simp_all add: releases_def)

lemma first_request:
  "state c \<noteq> UA_CONNECTION_CLOSED \<Longrightarrow>
   do_close_request r (c, sy) =
     (c\<lparr>state := UA_CONNECTION_CLOSED\<rparr>,
      sy @ (if r = OwnerCallback then [SHUTDOWN (sockfd c)]
            else [SHUTDOWN (sockfd c), CLOSESOCKET (sockfd c)]))"
  by (cases r) (simp_all add: ServerNetworkLayerTCP_closeConnection_def socket_close_def)

text \<open>
  C2, as the claim states it, fails: the owner's callback shuts the socket down, and the
  close the loop performs afterwards shuts it down a second time before it releases the
  descriptor. After these two requests the socket of the example connection has been shut
  down twice.
\<close>

theorem owner_then_loop_shuts_down_twice:
  "shutdowns 5 (snd (close_requests [OwnerCallback, LoopDetected] (example_connection, []))) = 2"
  by (simp add: example_connection_def shutdowns_def ServerNetworkLayerTCP_closeConnection_def
      socket_close_def)

text \<open>
  C2, amended. For a non-empty sequence of close requests on a connection that is not yet
  closed, with at most one of them detected by the loop: the state changes to closed exactly
  once and the connection ends closed; the descriptor is released once if the loop closed
  the connection and not at all otherwise; the socket is shut down once by the loop's close
  and once more if the owner's callback came first. The owner's callback on a closed
  connection changes nothing.
\<close>

theorem close_requests_converge:
  assumes "state c \<noteq> UA_CONNECTION_CLOSED" and "rs \<noteq> []" and "count_list rs LoopDetected \<le> 1"
  shows "closed_transitions rs (c, []) = 1 \<and>
         state (fst (close_requests rs (c, []))) = UA_CONNECTION_CLOSED \<and>
         releases (sockfd c) (snd (close_requests rs (c, []))) = count_list rs LoopDetected \<and>
         shutdowns (sockfd c) (snd (close_requests rs (c, []))) =
           count_list rs LoopDetected + (if hd rs = OwnerCallback then 1 else 0) \<and>
         (\<forall>w. state (fst w) = UA_CONNECTION_CLOSED \<longrightarrow> do_close_request OwnerCallback w = w)"
proof -
  from assms(2) obtain r rs' where rs: "rs = r # rs'"
    by (cases rs) auto
  let ?c = "c\<lparr>state := UA_CONNECTION_CLOSED\<rparr>"
  let ?sy = "if r = OwnerCallback then [SHUTDOWN (sockfd c)]
             else [SHUTDOWN (sockfd c), CLOSESOCKET (sockfd c)]"
  have step: "do_close_request r (c, []) = (?c, ?sy)"
    using first_request [OF assms(1), of r "[]"] by simp
  have run: "close_requests rs (c, []) =
      (?c, ?sy @ concat (map (\<lambda>r. if r = LoopDetected
                                   then [SHUTDOWN (sockfd c), CLOSESOCKET (sockfd c)] else []) rs'))"
    using closed_run [of rs' c ?sy] step rs by simp
  have t: "closed_transitions rs (c, []) = 1"
    using closed_no_transition [of "(?c, ?sy)" rs'] step rs assms(1) by simp
  have s: "state (fst (close_requests rs (c, []))) = UA_CONNECTION_CLOSED"
    using run by simp
  have rel: "releases (sockfd c) (snd (close_requests rs (c, []))) = count_list rs LoopDetected"
  proof -
    have "releases (sockfd c) (snd (close_requests rs (c, []))) =
        releases (sockfd c) ?sy + count_list rs' LoopDetected"
      by (simp only: run snd_conv releases_events)
    also have "\<dots> = count_list rs LoopDetected"
      by (cases r) (simp_all add: rs releases_def)
    finally show ?thesis .
  qed
  have shu: "shutdowns (sockfd c) (snd (close_requests rs (c, []))) =
           count_list rs LoopDetected + (if hd rs = OwnerCallback then 1 else 0)"
  proof -
    have "shutdowns (sockfd c) (snd (close_requests rs (c, []))) =
        shutdowns (sockfd c) ?sy + count_list rs' LoopDetected"
      by (simp only: run snd_conv shutdowns_events)
    also have "\<dots> = count_list rs LoopDetected + (if hd rs = OwnerCallback then 1 else 0)"
      by (cases r) (simp_all add: rs shutdowns_def)
    finally show ?thesis .
  qed
  have noop: "\<forall>w. state (fst w) = UA_CONNECTION_CLOSED \<longrightarrow> do_close_request OwnerCallback w = w"
    by (auto simp: ServerNetworkLayerTCP_closeConnection_def)
  from t s rel shu noop show ?thesis by blast
qed

theorem close_requests_converge_witness:
  "state example_connection \<noteq> UA_CONNECTION_CLOSED \<and>
   [OwnerCallback, OwnerCallback, LoopDetected, OwnerCallback] \<noteq> [] \<and>
   count_list [OwnerCallback, OwnerCallback, LoopDetected, OwnerCallback] LoopDetected \<le> 1 \<and>
   closed_transitions [OwnerCallback, OwnerCallback, LoopDetected, OwnerCallback]
     (example_connection, []) = 1 \<and>
   releases 5 (snd (close_requests [OwnerCallback, OwnerCallback, LoopDetected, OwnerCallback]
     (example_connection, []))) = 1 \<and>
   shutdowns 5 (snd (close_requests [OwnerCallback, OwnerCallback, LoopDetected, OwnerCallback]
     (example_connection, []))) = 2"
  using close_requests_converge
    [of example_connection "[OwnerCallback, OwnerCallback, LoopDetected, OwnerCallback]"]
  by (simp add: example_connection_def ServerNetworkLayerTCP_closeConnection_def socket_close_def
      shutdowns_def releases_def)

section \<open>Sending\<close>

text \<open>
  C3 at a failing input: the buffer holds \<^verbatim>\<open>abcd\<close>, the first \<^verbatim>\<open>send\<close> accepts two
  bytes and the second accepts all it is given. The second call starts at the beginning of
  the buffer again, so \<^verbatim>\<open>ababcd\<close> goes out and the function reports success.
\<close>

theorem socket_write_resends_from_start:
  "socket_write [Sent 2, Sent 4] (example_connection, []) example_buffer =
     Some \<lparr>wr_status = UA_STATUSCODE_GOOD, wr_buf = \<lparr>length_bs = 0, data_bs = None\<rparr>,
           wr_connection = example_connection, wr_sys = [],
           wr_wire = [97, 98, 97, 98, 99, 100]\<rparr>"
  by (simp add: socket_write_def example_buffer_def send_bytes_def UA_ByteString_deleteMembers_def)

section \<open>Send buffers\<close>

text \<open>
  C5 at a failing input: on a closed connection the server's
  \<^verbatim>\<open>ServerNetworkLayerGetSendBuffer\<close> allocates ten bytes and reports success, where the
  client's \<^verbatim>\<open>ClientNetworkLayerGetBuffer\<close> refuses.
\<close>

theorem server_send_buffer_on_closed_connection:
  "ServerNetworkLayerGetSendBuffer True (example_connection\<lparr>state := UA_CONNECTION_CLOSED\<rparr>) 10
       UA_BYTESTRING_NULL =
     (UA_STATUSCODE_GOOD, \<lparr>length_bs = 10, data_bs = Some (replicate 10 0)\<rparr>) \<and>
   ClientNetworkLayerGetBuffer True (example_connection\<lparr>state := UA_CONNECTION_CLOSED\<rparr>) 10
       UA_BYTESTRING_NULL =
     (UA_STATUSCODE_BADCONNECTIONCLOSED, UA_BYTESTRING_NULL)"
  by (simp add: ServerNetworkLayerGetSendBuffer_def ClientNetworkLayerGetBuffer_def
      UA_ByteString_allocBuffer_def example_connection_def)

section \<open>Receiving\<close>



section \<open>The client connector\<close>

declare port_scan.simps [simp del]

lemma port_scan_no_colon:
  "\<forall>q. k \<le> q \<and> q < length url - 1 \<longrightarrow> url ! q \<noteq> CHR '':'' \<Longrightarrow> snd (port_scan url e k) = 0"
proof (induction url e k rule: port_scan.induct)
  case (1 url e k)
  show ?case
  proof (cases "k < length url - 1")
    case True
    with "1.prems" have nc: "url ! k \<noteq> CHR '':''" by simp
    from "1.prems" have "\<forall>q. k + 1 \<le> q \<and> q < length url - 1 \<longrightarrow> url ! q \<noteq> CHR '':''" by simp
    with "1.IH" True nc have "snd (port_scan url e (k + 1)) = 0" by blast
    with True nc show ?thesis by (subst port_scan.simps) simp
  next
    case False
    then show ?thesis by (subst port_scan.simps) simp
  qed
qed

lemma port_scan_first_colon:
  "k \<le> p \<Longrightarrow> p < length url - 1 \<Longrightarrow> url ! p = CHR '':'' \<Longrightarrow>
   \<forall>q. k \<le> q \<and> q < p \<longrightarrow> url ! q \<noteq> CHR '':'' \<Longrightarrow>
   port_scan url e k =
     (p, if ERANGE \<noteq> (if st_erange (strtoul (drop (p + 1) url)) then ERANGE else e) \<and>
            st_value (strtoul (drop (p + 1) url)) < UINT16_MAX \<and>
            st_end (strtoul (drop (p + 1) url)) \<noteq> 0
         then st_value (strtoul (drop (p + 1) url)) mod 2 ^ 16 else 0)"
proof (induction url e k rule: port_scan.induct)
  case (1 url e k)
  show ?case
  proof (cases "k = p")
    case True
    with "1.prems" show ?thesis
      by (subst port_scan.simps) (simp add: Let_def)
  next
    case False
    with "1.prems" have lt: "k < p" and nc: "url ! k \<noteq> CHR '':''" by simp_all
    from lt "1.prems" have k: "k < length url - 1" by simp
    from "1.prems" lt have "port_scan url e (k + 1) =
        (p, if ERANGE \<noteq> (if st_erange (strtoul (drop (p + 1) url)) then ERANGE else e) \<and>
               st_value (strtoul (drop (p + 1) url)) < UINT16_MAX \<and>
               st_end (strtoul (drop (p + 1) url)) \<noteq> 0
            then st_value (strtoul (drop (p + 1) url)) mod 2 ^ 16 else 0)"
      using "1.IH" [OF k nc] by simp
    with k nc show ?thesis by (subst port_scan.simps) simp
  qed
qed

lemma no_colon_nth:
  assumes "CHR '':'' \<notin> set (take (p - k) (drop k url))" and "p \<le> length url"
  shows "\<forall>q. k \<le> q \<and> q < p \<longrightarrow> url ! q \<noteq> CHR '':''"
proof (intro allI impI)
  fix q assume q: "k \<le> q \<and> q < p"
  then have lt: "q - k < p - k" by arith
  have "q - k < length (take (p - k) (drop k url))"
    using lt q assms(2) by simp
  then have "take (p - k) (drop k url) ! (q - k) \<in> set (take (p - k) (drop k url))"
    by (rule nth_mem)
  moreover have "take (p - k) (drop k url) ! (q - k) = url ! q"
    using lt q assms(2) by simp
  ultimately show "url ! q \<noteq> CHR '':''"
    using assms(1) by metis
qed

lemmas strtoul_eval = strtoul_def isspace_c_def isdigit_c_def digits_value_def ULONG_MAX_def
  UINT16_MAX_def Let_def

lemma port_zero_rejected:
  "11 \<le> length url \<Longrightarrow> length url < 512 \<Longrightarrow> take 10 url = ''opc.tcp://'' \<Longrightarrow>
   snd (port_scan url (ce_errno env) 9) = 0 \<Longrightarrow>
   snd (ClientNetworkLayerTCP_connect env lc url) = ([''Port invalid''], [])"
  by (cases "port_scan url (ce_errno env) 9") (simp add: ClientNetworkLayerTCP_connect_def)

lemma digits_foldl_nonneg:
  "\<forall>d \<in> set ds. isdigit_c d \<Longrightarrow> 0 \<le> a \<Longrightarrow>
   0 \<le> foldl (\<lambda>a d. a * 10 + (of_char d - 48)) (a :: int) ds"
proof (induction ds arbitrary: a)
  case Nil
  then show ?case by simp
next
  case (Cons d ds)
  from Cons.prems have "0 \<le> a * 10 + (of_char d - 48)"
    by (simp add: isdigit_c_def)
  with Cons show ?case by simp
qed

lemma strtoul_nonneg: "0 \<le> st_value (strtoul s)"
proof -
  have "0 \<le> digits_value (takeWhile isdigit_c body)" for body
    unfolding digits_value_def
    by (rule digits_foldl_nonneg) (auto dest: set_takeWhileD)
  then show ?thesis
    by (simp add: strtoul_def Let_def ULONG_MAX_def)
qed

lemma port_scan_range: "0 \<le> snd (port_scan url e k) \<and> snd (port_scan url e k) < 65535"
proof (induction url e k rule: port_scan.induct)
  case (1 url e k)
  have "0 \<le> st_value (strtoul (drop (k + 1) url))"
    by (rule strtoul_nonneg)
  then show ?case
    using "1.IH"
    by (subst (1 2) port_scan.simps) (auto simp: Let_def UINT16_MAX_def)
qed

text \<open>
  What the connector does with four example URLs, for every environment and local
  configuration. When \<^verbatim>\<open>errno\<close> is not \<^verbatim>\<open>ERANGE\<close> on entry, a socket is created and
  the name resolves, the URL \<^verbatim>\<open>opc.tcp://localhost:4840\<close> leads to the lookup of host
  \<^verbatim>\<open>localhost\<close> and a connect to port 4840. The URLs \<^verbatim>\<open>opc.tcp://x\<close>,
  \<^verbatim>\<open>http://localhost:80\<close> and \<^verbatim>\<open>opc.tcp://host:abc\<close> are rejected with a warning
  before any system call: the first and the third at the port check (the first is 11
  characters long and passes the length check), the second at the scheme check.
\<close>

lemma endpoint_url_fresh_errno:
  "(ce_errno env \<noteq> ERANGE \<and> ce_socket env \<noteq> - 1 \<and> ce_gethostbyname env ''localhost'' \<longrightarrow>
      take 3 (snd (snd (ClientNetworkLayerTCP_connect env lc ''opc.tcp://localhost:4840''))) =
        [SOCKET, GETHOSTBYNAME ''localhost'', CONNECT (ce_socket env) 4840]) \<and>
   snd (ClientNetworkLayerTCP_connect env lc ''opc.tcp://x'') = ([''Port invalid''], []) \<and>
   snd (ClientNetworkLayerTCP_connect env lc ''http://localhost:80'') =
     ([''Server url does not begin with opc.tcp://''], []) \<and>
   snd (ClientNetworkLayerTCP_connect env lc ''opc.tcp://host:abc'') = ([''Port invalid''], [])"
proof -
  have scan: "port_scan ''opc.tcp://localhost:4840'' (ce_errno env) 9 =
      (19, if ce_errno env = ERANGE then 0 else 4840)"
    by (simp add: port_scan.simps strtoul_eval)
  have a: "ce_errno env \<noteq> ERANGE \<and> ce_socket env \<noteq> - 1 \<and> ce_gethostbyname env ''localhost'' \<longrightarrow>
      take 3 (snd (snd (ClientNetworkLayerTCP_connect env lc ''opc.tcp://localhost:4840''))) =
        [SOCKET, GETHOSTBYNAME ''localhost'', CONNECT (ce_socket env) 4840]"
    by (simp add: ClientNetworkLayerTCP_connect_def scan Let_def ClientNetworkLayerClose_def
        socket_close_def)
  have b: "snd (ClientNetworkLayerTCP_connect env lc ''opc.tcp://x'') = ([''Port invalid''], [])"
    by (rule port_zero_rejected) (simp_all add: port_scan.simps)
  have c: "snd (ClientNetworkLayerTCP_connect env lc ''http://localhost:80'') =
     ([''Server url does not begin with opc.tcp://''], [])"
    by (simp add: ClientNetworkLayerTCP_connect_def)
  have d: "snd (ClientNetworkLayerTCP_connect env lc ''opc.tcp://host:abc'') = ([''Port invalid''], [])"
    by (rule port_zero_rejected) (simp_all add: port_scan.simps strtoul_eval)
  from a b c d show ?thesis by blast
qed

text \<open>
  C7 at a failing input. The connector tests \<^verbatim>\<open>ERANGE != errno\<close> after \<^verbatim>\<open>strtoul\<close>
  without setting \<^verbatim>\<open>errno\<close> to 0 before the call. When \<^verbatim>\<open>errno\<close> still holds
  \<^verbatim>\<open>ERANGE\<close> on entry, whatever the rest of the environment, the valid URL
  \<^verbatim>\<open>opc.tcp://localhost:4840\<close> is rejected with \<^verbatim>\<open>Port invalid\<close> and no system call is
  made. The connector leaves \<^verbatim>\<open>errno\<close> in that state itself: on the URL
  \<^verbatim>\<open>opc.tcp://localhost:99999999999999999999999\<close> its call of \<^verbatim>\<open>strtoul\<close> on the port
  field overflows and sets \<^verbatim>\<open>ERANGE\<close>.
\<close>

theorem stale_erange_rejects_valid_url:
  "snd (ClientNetworkLayerTCP_connect (env\<lparr>ce_errno := ERANGE\<rparr>) lc ''opc.tcp://localhost:4840'') =
     ([''Port invalid''], []) \<and>
   st_erange (strtoul (drop (19 + 1) ''opc.tcp://localhost:99999999999999999999999''))"
proof
  show "snd (ClientNetworkLayerTCP_connect (env\<lparr>ce_errno := ERANGE\<rparr>) lc
      ''opc.tcp://localhost:4840'') = ([''Port invalid''], [])"
    by (rule port_zero_rejected) (simp_all add: port_scan.simps strtoul_eval)
  show "st_erange (strtoul (drop (19 + 1) ''opc.tcp://localhost:99999999999999999999999''))"
    by (simp add: strtoul_eval)
qed

text \<open>
  C8, as the claim states it, fails: a URL whose port field parses to zero and a URL without
  a colon after the scheme are both rejected with the warning \<^verbatim>\<open>Port invalid\<close>, and no
  system call is made.
\<close>

theorem zero_or_missing_port_counterexample:
  "snd (ClientNetworkLayerTCP_connect example_connect_env \<lparr>recvBufferSize = 8192\<rparr>
      ''opc.tcp://localhost:0'') = ([''Port invalid''], []) \<and>
   snd (ClientNetworkLayerTCP_connect example_connect_env \<lparr>recvBufferSize = 8192\<rparr>
      ''opc.tcp://localhost'') = ([''Port invalid''], [])"
  by (simp add: ClientNetworkLayerTCP_connect_def port_scan.simps strtoul_eval)

text \<open>
  C8, amended. A URL that passes the length and scheme checks is rejected with
  \<^verbatim>\<open>Port invalid\<close>, before any connection attempt, when no colon is found from position 9
  up to the scan bound, and also when the first colon found there is followed by a port
  field that parses to zero.
\<close>

theorem zero_or_missing_port_rejected:
  assumes "11 \<le> length url" and "length url < 512" and "take 10 url = ''opc.tcp://''"
    and "CHR '':'' \<notin> set (take (length url - 10) (drop 9 url)) \<or>
         (\<exists>p. 9 \<le> p \<and> p < length url - 1 \<and> url ! p = CHR '':'' \<and>
              CHR '':'' \<notin> set (take (p - 9) (drop 9 url)) \<and>
              st_value (strtoul (drop (p + 1) url)) = 0)"
  shows "snd (ClientNetworkLayerTCP_connect env lc url) = ([''Port invalid''], [])"
proof -
  have "snd (port_scan url (ce_errno env) 9) = 0"
    using assms(4)
  proof
    assume "CHR '':'' \<notin> set (take (length url - 10) (drop 9 url))"
    then have "CHR '':'' \<notin> set (take (length url - 1 - 9) (drop 9 url))"
      by simp
    then have "\<forall>q. 9 \<le> q \<and> q < length url - 1 \<longrightarrow> url ! q \<noteq> CHR '':''"
      by (rule no_colon_nth) simp
    then show ?thesis by (rule port_scan_no_colon)
  next
    assume "\<exists>p. 9 \<le> p \<and> p < length url - 1 \<and> url ! p = CHR '':'' \<and>
              CHR '':'' \<notin> set (take (p - 9) (drop 9 url)) \<and>
              st_value (strtoul (drop (p + 1) url)) = 0"
    then obtain p where p: "9 \<le> p" "p < length url - 1" "url ! p = CHR '':''"
        "CHR '':'' \<notin> set (take (p - 9) (drop 9 url))"
        "st_value (strtoul (drop (p + 1) url)) = 0"
      by blast
    from p(4) have "\<forall>q. 9 \<le> q \<and> q < p \<longrightarrow> url ! q \<noteq> CHR '':''"
      by (rule no_colon_nth) (use p(2) in simp)
    from port_scan_first_colon [OF p(1) p(2) p(3) this, of "ce_errno env"] p(5)
    show ?thesis by simp
  qed
  with assms(1-3) show ?thesis by (rule port_zero_rejected)
qed

theorem zero_or_missing_port_rejected_witness:
  "snd (ClientNetworkLayerTCP_connect example_connect_env \<lparr>recvBufferSize = 8192\<rparr>
      ''opc.tcp://localhost:00'') = ([''Port invalid''], []) \<and>
   st_value (strtoul (drop (19 + 1) ''opc.tcp://localhost:00'')) = 0"
proof -
  have z: "st_value (strtoul (drop (19 + 1) ''opc.tcp://localhost:00'')) = 0"
    by (simp add: strtoul_eval)
  have "\<exists>p. 9 \<le> p \<and> p < length ''opc.tcp://localhost:00'' - 1 \<and> ''opc.tcp://localhost:00'' ! p = CHR '':'' \<and>
              CHR '':'' \<notin> set (take (p - 9) (drop 9 ''opc.tcp://localhost:00'')) \<and>
              st_value (strtoul (drop (p + 1) ''opc.tcp://localhost:00'')) = 0"
    by (rule exI [of _ 19]) (simp add: strtoul_eval)
  then show ?thesis
    using zero_or_missing_port_rejected [of "''opc.tcp://localhost:00''" example_connect_env
        "\<lparr>recvBufferSize = 8192\<rparr>"] z
    by simp
qed

text \<open>
  C9, as the claim states it, fails: with a failing \<^verbatim>\<open>connect\<close> the connection returned
  for \<^verbatim>\<open>opc.tcp://localhost:4840\<close> is in the closed state, not in the opening state.
\<close>

theorem failed_connect_leaves_closed:
  "state (fst (ClientNetworkLayerTCP_connect example_connect_env \<lparr>recvBufferSize = 8192\<rparr>
      ''opc.tcp://localhost:4840'')) = UA_CONNECTION_CLOSED"
  by (simp add: ClientNetworkLayerTCP_connect_def port_scan.simps strtoul_eval
      example_connect_env_def ERANGE_def ClientNetworkLayerClose_def socket_close_def)

text \<open>
  C9, amended. Whenever the connector gets as far as the call of \<^verbatim>\<open>connect\<close>: if the
  call fails, the connection returned is in the closed state, the failure is logged, and
  the client's close has shut the socket down and released the descriptor; if the call
  succeeds, the connection returned is in the opening state. The connection is all the
  function returns.
\<close>

theorem connect_attempt_state:
  assumes "CONNECT fd port \<in> set (snd (snd (ClientNetworkLayerTCP_connect env lc url)))"
  shows "(ce_connect env < 0 \<longrightarrow>
            state (fst (ClientNetworkLayerTCP_connect env lc url)) = UA_CONNECTION_CLOSED \<and>
            snd (ClientNetworkLayerTCP_connect env lc url) =
              ([''Connection failed''],
               [SOCKET, GETHOSTBYNAME (take (fst (port_scan url (ce_errno env) 9) - 10) (drop 10 url)),
                CONNECT fd port, SHUTDOWN fd, CLOSESOCKET fd])) \<and>
         (\<not> ce_connect env < 0 \<longrightarrow>
            state (fst (ClientNetworkLayerTCP_connect env lc url)) = UA_CONNECTION_OPENING)"
  using assms
  by (cases "port_scan url (ce_errno env) 9")
     (auto simp: ClientNetworkLayerTCP_connect_def Let_def ClientNetworkLayerClose_def
        socket_close_def split: if_splits)

theorem connect_attempt_state_witness:
  "CONNECT 3 4840 \<in> set (snd (snd (ClientNetworkLayerTCP_connect example_connect_env
      \<lparr>recvBufferSize = 8192\<rparr> ''opc.tcp://localhost:4840''))) \<and>
   ce_connect example_connect_env < 0 \<and>
   state (fst (ClientNetworkLayerTCP_connect example_connect_env \<lparr>recvBufferSize = 8192\<rparr>
      ''opc.tcp://localhost:4840'')) = UA_CONNECTION_CLOSED"
proof -
  have att: "CONNECT 3 4840 \<in> set (snd (snd (ClientNetworkLayerTCP_connect example_connect_env
      \<lparr>recvBufferSize = 8192\<rparr> ''opc.tcp://localhost:4840'')))"
    by (simp add: ClientNetworkLayerTCP_connect_def port_scan.simps strtoul_eval
        example_connect_env_def ERANGE_def ClientNetworkLayerClose_def socket_close_def)
  have neg: "ce_connect example_connect_env < 0"
    by (simp add: example_connect_env_def)
  from connect_attempt_state [OF att] att neg show ?thesis by blast
qed

text \<open>
  C10. A URL that passes the length and scheme checks and whose first colon from position 9
  on is followed by a port field that parses to 65535 is rejected with
  \<^verbatim>\<open>Port invalid\<close>; and every port the connector ever connects to is above 0 and strictly
  below 65535.
\<close>

theorem port_65535_rejected:
  assumes "11 \<le> length url" and "length url < 512" and "take 10 url = ''opc.tcp://''"
    and "9 \<le> p" and "p < length url - 1" and "url ! p = CHR '':''"
    and "CHR '':'' \<notin> set (take (p - 9) (drop 9 url))"
    and "st_value (strtoul (drop (p + 1) url)) = 65535"
  shows "snd (ClientNetworkLayerTCP_connect env lc url) = ([''Port invalid''], []) \<and>
         (\<forall>env' lc' url' fd port.
            CONNECT fd port \<in> set (snd (snd (ClientNetworkLayerTCP_connect env' lc' url'))) \<longrightarrow>
            0 < port \<and> port < 65535)"
proof
  from assms(7) have "\<forall>q. 9 \<le> q \<and> q < p \<longrightarrow> url ! q \<noteq> CHR '':''"
    by (rule no_colon_nth) (use assms(5) in simp)
  from port_scan_first_colon [OF assms(4) assms(5) assms(6) this, of "ce_errno env"] assms(8)
  have "snd (port_scan url (ce_errno env) 9) = 0"
    by (simp add: UINT16_MAX_def)
  with assms(1-3) show "snd (ClientNetworkLayerTCP_connect env lc url) = ([''Port invalid''], [])"
    by (rule port_zero_rejected)
next
  show "\<forall>env' lc' url' fd port.
          CONNECT fd port \<in> set (snd (snd (ClientNetworkLayerTCP_connect env' lc' url'))) \<longrightarrow>
          0 < port \<and> port < 65535"
  proof (intro allI impI)
    fix env' lc' url' fd port
    assume c: "CONNECT fd port \<in> set (snd (snd (ClientNetworkLayerTCP_connect env' lc' url')))"
    obtain pp pt where sc: "port_scan url' (ce_errno env') 9 = (pp, pt)"
      by (cases "port_scan url' (ce_errno env') 9")
    from c sc have "port = pt \<and> pt \<noteq> 0"
      by (auto simp: ClientNetworkLayerTCP_connect_def Let_def ClientNetworkLayerClose_def
          socket_close_def split: if_splits)
    moreover from port_scan_range [of url' "ce_errno env'" 9] sc have "0 \<le> pt \<and> pt < 65535"
      by simp
    ultimately show "0 < port \<and> port < 65535" by simp
  qed
qed

theorem port_65535_rejected_witness:
  "st_value (strtoul (drop (19 + 1) ''opc.tcp://localhost:65535'')) = 65535 \<and>
   snd (ClientNetworkLayerTCP_connect example_connect_env \<lparr>recvBufferSize = 8192\<rparr>
      ''opc.tcp://localhost:65535'') = ([''Port invalid''], [])"
proof -
  have v: "st_value (strtoul (drop (19 + 1) ''opc.tcp://localhost:65535'')) = 65535"
    by (simp add: strtoul_eval)
  from port_65535_rejected [of "''opc.tcp://localhost:65535''" 19 example_connect_env
      "\<lparr>recvBufferSize = 8192\<rparr>", OF _ _ _ _ _ _ _ v] v
  show ?thesis by simp
qed

section \<open>Stopping the server\<close>

lemma stop_loop_closed_form:
  "stop_loop ms (h, sy, items) =
     ((\<lambda>c. if c \<in> fst ` set ms then (h c)\<lparr>state := UA_CONNECTION_CLOSED\<rparr> else h c),
      sy @ concat (map (\<lambda>m. [SHUTDOWN (sockfd (h (fst m))), CLOSESOCKET (sockfd (h (fst m)))]) ms),
      items @ concat (map (\<lambda>m. [DETACHCONNECTION (fst m),
                                  METHODCALL_DELAYED FreeConnectionCallback (fst m)]) ms))"
proof (induction ms arbitrary: h sy items)
  case Nil
  then show ?case by simp
next
  case (Cons m ms)
  let ?h = "h(fst m := (h (fst m))\<lparr>state := UA_CONNECTION_CLOSED\<rparr>)"
  have fd: "sockfd (?h c) = sockfd (h c)" for c
    by simp
  have hp: "(\<lambda>c. if c \<in> fst ` set ms then (?h c)\<lparr>state := UA_CONNECTION_CLOSED\<rparr> else ?h c) =
        (\<lambda>c. if c \<in> fst ` set (m # ms) then (h c)\<lparr>state := UA_CONNECTION_CLOSED\<rparr> else h c)"
    by (rule ext) simp
  show ?case
    by (simp add: socket_close_def Cons.IH fd hp del: fun_upd_apply)
qed

text \<open>
  C6, as the claim states it, fails: when the job array cannot be allocated, stop returns no
  jobs although three connections are in the table.
\<close>

theorem stop_without_memory_counterexample:
  "length (mappings (layer example_world)) = 3 \<and>
   snd (ServerNetworkLayerTCP_stop False example_world) = []"
  by (simp add: ServerNetworkLayerTCP_stop_def example_world_def)

text \<open>
  C6, amended. When the job array can be allocated, stop with \<open>K\<close> connections in the
  table yields exactly \<open>2K\<close> jobs: for each connection, in table order, a detach job
  directly followed by the delayed call that frees the same connection. Every connection
  of the table is closed afterwards, and the listening socket was shut down and released
  before the connections' sockets; the table itself is left as it was. When the job array
  cannot be allocated, the listening socket is still shut down and released, no job is
  returned and no connection is touched.
\<close>

theorem stop_jobs:
  "snd (ServerNetworkLayerTCP_stop True w) =
      concat (map (\<lambda>m. [DETACHCONNECTION (fst m), METHODCALL_DELAYED FreeConnectionCallback (fst m)])
        (mappings (layer w))) \<and>
   length (snd (ServerNetworkLayerTCP_stop True w)) = 2 * length (mappings (layer w)) \<and>
   (\<forall>m \<in> set (mappings (layer w)).
      state (heap (fst (ServerNetworkLayerTCP_stop True w)) (fst m)) = UA_CONNECTION_CLOSED) \<and>
   sys (fst (ServerNetworkLayerTCP_stop True w)) =
      sys w @ [SHUTDOWN (serversockfd (layer w)), CLOSESOCKET (serversockfd (layer w))] @
      concat (map (\<lambda>m. [SHUTDOWN (sockfd (heap w (fst m))), CLOSESOCKET (sockfd (heap w (fst m)))])
        (mappings (layer w))) \<and>
   layer (fst (ServerNetworkLayerTCP_stop True w)) = layer w \<and>
   ServerNetworkLayerTCP_stop False w =
     (w\<lparr>sys := sys w @ [SHUTDOWN (serversockfd (layer w)), CLOSESOCKET (serversockfd (layer w))]\<rparr>, [])"
proof -
  have len: "length (concat (map (\<lambda>m. [DETACHCONNECTION (fst m),
      METHODCALL_DELAYED FreeConnectionCallback (fst m)]) ms)) = 2 * length ms" for ms :: "(nat \<times> int) list"
    by (induction ms) simp_all
  show ?thesis
    by (simp add: ServerNetworkLayerTCP_stop_def Let_def stop_loop_closed_form len)
qed

theorem stop_jobs_witness:
  "snd (ServerNetworkLayerTCP_stop True example_world) =
     [DETACHCONNECTION 1, METHODCALL_DELAYED FreeConnectionCallback 1,
      DETACHCONNECTION 2, METHODCALL_DELAYED FreeConnectionCallback 2,
      DETACHCONNECTION 3, METHODCALL_DELAYED FreeConnectionCallback 3] \<and>
   (2, 6) \<in> set (mappings (layer example_world)) \<and>
   state (heap (fst (ServerNetworkLayerTCP_stop True example_world)) 2) = UA_CONNECTION_CLOSED \<and>
   sys (fst (ServerNetworkLayerTCP_stop True example_world)) =
     [SHUTDOWN 3, CLOSESOCKET 3, SHUTDOWN 5, CLOSESOCKET 5, SHUTDOWN 6, CLOSESOCKET 6,
      SHUTDOWN 7, CLOSESOCKET 7]"
proof -
  have m: "(2, 6) \<in> set (mappings (layer example_world))"
    by (simp add: example_world_def)
  from stop_jobs [of example_world] m
  have "state (heap (fst (ServerNetworkLayerTCP_stop True example_world)) (fst (2::nat, 6::int))) =
      UA_CONNECTION_CLOSED"
    by blast
  with stop_jobs [of example_world] m show ?thesis
    by (simp add: example_world_def example_connection_def)
qed

section \<open>The server loop\<close>

declare getJobs_loop.simps [simp del]

lemma swap_remove_distinct:
  assumes "distinct xs" and "i < length xs"
  shows "distinct (butlast (xs[i := last xs])) \<and> xs ! i \<notin> set (butlast (xs[i := last xs])) \<and>
         set (butlast (xs[i := last xs])) \<subseteq> set xs"
proof -
  from assms(2) have "xs \<noteq> []" by auto
  then obtain ys l where xs: "xs = ys @ [l]"
    by (metis append_butlast_last_id)
  show ?thesis
  proof (cases "i = length ys")
    case True
    with xs assms(1) show ?thesis by auto
  next
    case False
    with assms(2) xs have i: "i < length ys" by simp
    from assms(1) xs have d: "distinct ys" and l: "l \<notin> set ys" by simp_all
    have b: "butlast (xs[i := last xs]) = ys[i := l]"
      using i xs by (simp add: list_update_append)
    have s: "set (ys[i := l]) = insert l (set ys - {ys ! i})"
      using d i by (rule set_update_distinct)
    have "distinct (ys[i := l])"
      using d l by (simp add: distinct_list_update)
    moreover have "xs ! i \<notin> set (ys[i := l])"
      using s i l xs by (auto simp: nth_append)
    moreover have "set (ys[i := l]) \<subseteq> set xs"
      using s xs by auto
    ultimately show ?thesis by (simp add: b)
  qed
qed

lemma swap_remove_map:
  "i < length ms \<Longrightarrow> map f (butlast (ms[i := last ms])) = butlast ((map f ms)[i := last (map f ms)])"
  by (cases "ms = []") (simp_all add: map_butlast map_update last_map)

lemma swap_remove_table:
  assumes "distinct (map fst ms)" and "i < length ms"
  shows "distinct (map fst (butlast (ms[i := last ms]))) \<and>
         fst (ms ! i) \<notin> fst ` set (butlast (ms[i := last ms])) \<and>
         fst ` set (butlast (ms[i := last ms])) \<subseteq> fst ` set ms"
proof -
  from assms(2) have i: "i < length (map fst ms)" by simp
  from swap_remove_distinct [OF assms(1) i] swap_remove_map [OF assms(2), of fst] assms(2)
  show ?thesis
    by (simp only: set_map [symmetric]) simp
qed


lemma detached_gone_append:
  assumes "detached_gone ms js" and "\<forall>c. x \<noteq> DETACHCONNECTION c"
  shows "detached_gone ms (js @ [x])"
  unfolding detached_gone_def
proof (intro allI impI)
  fix k c
  assume a: "k < length (js @ [x]) \<and> (js @ [x]) ! k = DETACHCONNECTION c"
  with assms(2) have k: "k < length js"
    by (cases "k = length js") auto
  with a have "js ! k = DETACHCONNECTION c" by (simp add: nth_append)
  with assms(1) k have "Suc k < length js \<and> js ! Suc k = METHODCALL_DELAYED FreeConnectionCallback c \<and>
      c \<notin> fst ` set ms"
    unfolding detached_gone_def by blast
  then show "Suc k < length (js @ [x]) \<and>
      (js @ [x]) ! Suc k = METHODCALL_DELAYED FreeConnectionCallback c \<and> c \<notin> fst ` set ms"
    by (simp add: nth_append)
qed

lemma detached_gone_detach:
  assumes "detached_gone ms js" and "fst ` set ms' \<subseteq> fst ` set ms" and "c \<notin> fst ` set ms'"
  shows "detached_gone ms' (js @ [DETACHCONNECTION c, METHODCALL_DELAYED FreeConnectionCallback c])"
  unfolding detached_gone_def
proof (intro allI impI)
  let ?js = "js @ [DETACHCONNECTION c, METHODCALL_DELAYED FreeConnectionCallback c]"
  fix k c'
  assume a: "k < length ?js \<and> ?js ! k = DETACHCONNECTION c'"
  consider "k < length js" | "k = length js" | "k = Suc (length js)"
    using a by fastforce
  then show "Suc k < length ?js \<and> ?js ! Suc k = METHODCALL_DELAYED FreeConnectionCallback c' \<and>
      c' \<notin> fst ` set ms'"
  proof cases
    case 1
    with a have "js ! k = DETACHCONNECTION c'" by (simp add: nth_append)
    with assms(1) 1 have "Suc k < length js \<and>
        js ! Suc k = METHODCALL_DELAYED FreeConnectionCallback c' \<and> c' \<notin> fst ` set ms"
      unfolding detached_gone_def by blast
    with assms(2) show ?thesis by (auto simp: nth_append)
  next
    case 2
    with a have "c' = c" by (simp add: nth_append)
    with 2 assms(3) show ?thesis by (simp add: nth_append)
  next
    case 3
    with a show ?thesis by (simp add: nth_append)
  qed
qed

lemma getJobs_entry_cases:
  assumes "getJobs_entry env i (w, buf, js) = (w', buf', js')"
  shows "(mappings (layer w') = mappings (layer w) \<and>
           (js' = js \<or> (\<exists>x. js' = js @ [x] \<and> (\<forall>c. x \<noteq> DETACHCONNECTION c)))) \<or>
         (mappings (layer w') =
            butlast ((mappings (layer w))[i := last (mappings (layer w))]) \<and>
          js' = js @ [DETACHCONNECTION (fst (mappings (layer w) ! i)),
                      METHODCALL_DELAYED FreeConnectionCallback (fst (mappings (layer w) ! i))])"
  using assms
  by (auto simp: getJobs_entry_def Let_def split: if_splits prod.splits)

lemma getJobs_entry_keeps:
  assumes "i < length (mappings (layer w))"
    and "distinct (map fst (mappings (layer w)))"
    and "detached_gone (mappings (layer w)) js"
    and "getJobs_entry env i (w, buf, js) = (w', buf', js')"
  shows "distinct (map fst (mappings (layer w'))) \<and> detached_gone (mappings (layer w')) js'"
  using getJobs_entry_cases [OF assms(4)]
proof (elim disjE conjE exE)
  assume "mappings (layer w') = mappings (layer w)" and "js' = js"
  with assms(2,3) show ?thesis by simp
next
  fix x
  assume "mappings (layer w') = mappings (layer w)" and "js' = js @ [x]"
    and "\<forall>c. x \<noteq> DETACHCONNECTION c"
  with assms(2,3) show ?thesis by (simp add: detached_gone_append)
next
  let ?ms = "mappings (layer w)"
  assume m: "mappings (layer w') = butlast (?ms[i := last ?ms])"
    and j: "js' = js @ [DETACHCONNECTION (fst (?ms ! i)),
                        METHODCALL_DELAYED FreeConnectionCallback (fst (?ms ! i))]"
  from swap_remove_table [OF assms(2) assms(1)]
  have d: "distinct (map fst (butlast (?ms[i := last ?ms])))"
    and n: "fst (?ms ! i) \<notin> fst ` set (butlast (?ms[i := last ?ms]))"
    and s: "fst ` set (butlast (?ms[i := last ?ms])) \<subseteq> fst ` set ?ms"
    by blast+
  from detached_gone_detach [OF assms(3) s n] d m j show ?thesis by simp
qed

lemma getJobs_loop_keeps:
  "distinct (map fst (mappings (layer (fst st)))) \<Longrightarrow>
   detached_gone (mappings (layer (fst st))) (snd (snd st)) \<Longrightarrow>
   distinct (map fst (mappings (layer (fst (getJobs_loop env resultsize i st))))) \<and>
   detached_gone (mappings (layer (fst (getJobs_loop env resultsize i st))))
     (snd (snd (getJobs_loop env resultsize i st)))"
proof (induction env resultsize i st rule: getJobs_loop.induct)
  case (1 env resultsize i st)
  show ?case
  proof (cases "i < length (mappings (layer (fst st))) \<and> length (snd (snd st)) < resultsize")
    case True
    obtain w buf js where st: "st = (w, buf, js)" by (cases st)
    obtain w' buf' js' where e: "getJobs_entry env i (w, buf, js) = (w', buf', js')"
      by (cases "getJobs_entry env i (w, buf, js)")
    from True st have i: "i < length (mappings (layer w))" by simp
    from "1.prems" st have "distinct (map fst (mappings (layer w)))"
      and "detached_gone (mappings (layer w)) js" by simp_all
    from getJobs_entry_keeps [OF i this e] st e
    have "distinct (map fst (mappings (layer (fst (getJobs_entry env i st)))))"
      and "detached_gone (mappings (layer (fst (getJobs_entry env i st))))
             (snd (snd (getJobs_entry env i st)))"
      by simp_all
    from "1.IH" [OF True this]
    have "distinct (map fst (mappings (layer (fst (getJobs_loop env resultsize (i + 1)
              (getJobs_entry env i st)))))) \<and>
          detached_gone (mappings (layer (fst (getJobs_loop env resultsize (i + 1)
              (getJobs_entry env i st)))))
            (snd (snd (getJobs_loop env resultsize (i + 1) (getJobs_entry env i st))))" .
    moreover have "getJobs_loop env resultsize i st =
        getJobs_loop env resultsize (i + 1) (getJobs_entry env i st)"
      using True by (simp only: getJobs_loop.simps [of env resultsize i st] if_True if_False simp_thms)
    ultimately show ?thesis by simp
  next
    case False
    then have "getJobs_loop env resultsize i st = st"
      by (simp only: getJobs_loop.simps [of env resultsize i st] if_True if_False simp_thms)
    with "1.prems" show ?thesis by simp
  qed
qed


lemma add_keeps_distinct:
  assumes "distinct (map fst (mappings (layer w)))"
    and "\<forall>c. ge_malloc_connection env = Some c \<longrightarrow> c \<notin> fst ` set (mappings (layer w))"
  shows "distinct (map fst (mappings (layer (snd (ServerNetworkLayerTCP_add env w newsockfd)))))"
  using assms
  by (auto simp: ServerNetworkLayerTCP_add_def Let_def split: option.splits)

lemma detached_append: "detached (xs @ ys) = detached xs @ detached ys"
  by (induction xs rule: detached.induct) simp_all

lemma detached_mem: "c \<in> set (detached js) \<longleftrightarrow> DETACHCONNECTION c \<in> set js"
  by (induction js rule: detached.induct) auto

lemma close_calls_append: "close_calls h (cs @ ds) = close_calls h cs @ close_calls h ds"
  by (simp add: close_calls_def)

lemma close_calls_cong:
  "\<forall>c. sockfd (h c) = sockfd (h' c) \<Longrightarrow> close_calls h cs = close_calls h' cs"
  by (simp add: close_calls_def)

lemma swap_remove_set:
  assumes "distinct xs" and "i < length xs"
  shows "set (butlast (xs[i := last xs])) = set xs - {xs ! i}"
proof -
  from assms(2) have "xs \<noteq> []" by auto
  then obtain ys l where xs: "xs = ys @ [l]"
    by (metis append_butlast_last_id)
  show ?thesis
  proof (cases "i = length ys")
    case True
    with xs assms(1) show ?thesis by auto
  next
    case False
    with assms(2) xs have i: "i < length ys" by simp
    from assms(1) xs have d: "distinct ys" and l: "l \<notin> set ys" by simp_all
    have b: "butlast (xs[i := last xs]) = ys[i := l]"
      using i xs by (simp add: list_update_append)
    have s: "set (ys[i := l]) = insert l (set ys - {ys ! i})"
      using d i by (rule set_update_distinct)
    have "ys ! i \<noteq> l"
      using i l by (metis nth_mem)
    then have "insert l (set ys - {ys ! i}) = set xs - {xs ! i}"
      using xs i by (auto simp: nth_append)
    with s b show ?thesis by simp
  qed
qed

lemma swap_remove_table_set:
  assumes "distinct (map fst ms)" and "i < length ms"
  shows "fst ` set (butlast (ms[i := last ms])) = fst ` set ms - {fst (ms ! i)}"
proof -
  from assms(2) have i: "i < length (map fst ms)" by simp
  from swap_remove_set [OF assms(1) i] swap_remove_map [OF assms(2), of fst] assms(2)
  show ?thesis
    by (simp only: set_map [symmetric]) simp
qed

lemma socket_recv_calls:
  "snd (snd (snd (socket_recv renv (conn, sy) buf 0))) =
     sy @ (if fst (socket_recv renv (conn, sy) buf 0) = UA_STATUSCODE_BADCONNECTIONCLOSED
           then [SHUTDOWN (sockfd conn), CLOSESOCKET (sockfd conn)] else []) \<and>
   sockfd (fst (snd (snd (socket_recv renv (conn, sy) buf 0)))) = sockfd conn"
  by (simp add: socket_recv_def Let_def socket_close_def)

lemma getJobs_entry_effect:
  assumes "getJobs_entry env i (w, buf, js) = (w', buf', js')"
  shows "(\<forall>c. sockfd (heap w' c) = sockfd (heap w c)) \<and>
         ((mappings (layer w') = mappings (layer w) \<and> detached js' = detached js \<and> sys w' = sys w) \<or>
          (mappings (layer w') = butlast ((mappings (layer w))[i := last (mappings (layer w))]) \<and>
           detached js' = detached js @ [fst (mappings (layer w) ! i)] \<and>
           sys w' = sys w @ close_calls (heap w) [fst (mappings (layer w) ! i)]))"
  using assms
  by (auto simp: getJobs_entry_def Let_def socket_recv_def socket_close_def detached_append
        close_calls_def split: if_splits prod.splits)

lemma getJobs_entry_step:
  assumes "i < length (mappings (layer w))"
    and "distinct (map fst (mappings (layer w)))"
    and "getJobs_entry env i (w, buf, js) = (w', buf', js')"
  shows "distinct (map fst (mappings (layer w'))) \<and>
         (\<exists>ds. detached js' = detached js @ ds \<and>
               sys w' = sys w @ close_calls (heap w) ds \<and>
               (\<forall>c. sockfd (heap w' c) = sockfd (heap w c)) \<and>
               fst ` set (mappings (layer w')) = fst ` set (mappings (layer w)) - set ds)"
proof -
  let ?ms = "mappings (layer w)"
  from getJobs_entry_effect [OF assms(3)]
  have fd: "\<forall>c. sockfd (heap w' c) = sockfd (heap w c)"
    and alt: "(mappings (layer w') = ?ms \<and> detached js' = detached js \<and> sys w' = sys w) \<or>
          (mappings (layer w') = butlast (?ms[i := last ?ms]) \<and>
           detached js' = detached js @ [fst (?ms ! i)] \<and>
           sys w' = sys w @ close_calls (heap w) [fst (?ms ! i)])"
    by blast+
  from alt show ?thesis
  proof
    assume a: "mappings (layer w') = ?ms \<and> detached js' = detached js \<and> sys w' = sys w"
    have "detached js' = detached js @ [] \<and> sys w' = sys w @ close_calls (heap w) [] \<and>
        (\<forall>c. sockfd (heap w' c) = sockfd (heap w c)) \<and>
        fst ` set (mappings (layer w')) = fst ` set ?ms - set []"
      using a fd by (simp add: close_calls_def)
    with a assms(2) show ?thesis by metis
  next
    assume b: "mappings (layer w') = butlast (?ms[i := last ?ms]) \<and>
           detached js' = detached js @ [fst (?ms ! i)] \<and>
           sys w' = sys w @ close_calls (heap w) [fst (?ms ! i)]"
    from swap_remove_table [OF assms(2) assms(1)]
    have d: "distinct (map fst (butlast (?ms[i := last ?ms])))" by blast
    have "fst ` set (mappings (layer w')) = fst ` set ?ms - set [fst (?ms ! i)]"
      using swap_remove_table_set [OF assms(2) assms(1)] b by simp
    with b fd d show ?thesis by metis
  qed
qed

lemma getJobs_loop_effect:
  "distinct (map fst (mappings (layer (fst st)))) \<Longrightarrow>
   \<exists>ds. detached (snd (snd (getJobs_loop env resultsize i st))) = detached (snd (snd st)) @ ds \<and>
        sys (fst (getJobs_loop env resultsize i st)) = sys (fst st) @ close_calls (heap (fst st)) ds \<and>
        (\<forall>c. sockfd (heap (fst (getJobs_loop env resultsize i st)) c) = sockfd (heap (fst st) c)) \<and>
        fst ` set (mappings (layer (fst (getJobs_loop env resultsize i st)))) =
          fst ` set (mappings (layer (fst st))) - set ds"
proof (induction env resultsize i st rule: getJobs_loop.induct)
  case (1 env resultsize i st)
  show ?case
  proof (cases "i < length (mappings (layer (fst st))) \<and> length (snd (snd st)) < resultsize")
    case True
    obtain w buf js where st: "st = (w, buf, js)" by (cases st)
    obtain w' buf' js' where e: "getJobs_entry env i (w, buf, js) = (w', buf', js')"
      by (cases "getJobs_entry env i (w, buf, js)")
    from True st have i: "i < length (mappings (layer w))" by simp
    from "1.prems" st have d: "distinct (map fst (mappings (layer w)))" by simp
    from getJobs_entry_step [OF i d e] obtain ds1 where
      d': "distinct (map fst (mappings (layer w')))"
      and j1: "detached js' = detached js @ ds1"
      and s1: "sys w' = sys w @ close_calls (heap w) ds1"
      and f1: "\<forall>c. sockfd (heap w' c) = sockfd (heap w c)"
      and m1: "fst ` set (mappings (layer w')) = fst ` set (mappings (layer w)) - set ds1"
      by blast
    let ?r = "getJobs_loop env resultsize (i + 1) (w', buf', js')"
    from "1.IH" [OF True] d' st e obtain ds2 where
      j2: "detached (snd (snd ?r)) = detached js' @ ds2"
      and s2: "sys (fst ?r) = sys w' @ close_calls (heap w') ds2"
      and f2: "\<forall>c. sockfd (heap (fst ?r) c) = sockfd (heap w' c)"
      and m2: "fst ` set (mappings (layer (fst ?r))) = fst ` set (mappings (layer w')) - set ds2"
      by auto
    have "getJobs_loop env resultsize i st =
        getJobs_loop env resultsize (i + 1) (getJobs_entry env i st)"
      using True
      by (simp only: getJobs_loop.simps [of env resultsize i st] if_True if_False simp_thms)
    with st e have eq: "getJobs_loop env resultsize i (w, buf, js) = ?r"
      by simp
    have c: "close_calls (heap w') ds2 = close_calls (heap w) ds2"
      using f1 by (rule close_calls_cong)
    have "detached (snd (snd ?r)) = detached js @ (ds1 @ ds2)"
      using j1 j2 by simp
    moreover have "sys (fst ?r) = sys w @ close_calls (heap w) (ds1 @ ds2)"
      using s1 s2 c by (simp add: close_calls_append)
    moreover have "\<forall>c. sockfd (heap (fst ?r) c) = sockfd (heap w c)"
      using f1 f2 by simp
    moreover have "fst ` set (mappings (layer (fst ?r))) =
        fst ` set (mappings (layer w)) - set (ds1 @ ds2)"
      using m1 m2 by auto
    ultimately have "detached (snd (snd ?r)) = detached js @ (ds1 @ ds2) \<and>
        sys (fst ?r) = sys w @ close_calls (heap w) (ds1 @ ds2) \<and>
        (\<forall>c. sockfd (heap (fst ?r) c) = sockfd (heap w c)) \<and>
        fst ` set (mappings (layer (fst ?r))) = fst ` set (mappings (layer w)) - set (ds1 @ ds2)"
      by blast
    then show ?thesis
      unfolding st fst_conv snd_conv eq by (rule exI)
  next
    case False
    then have eq: "getJobs_loop env resultsize i st = st"
      by (simp only: getJobs_loop.simps [of env resultsize i st] if_True if_False simp_thms)
    have "detached (snd (snd st)) = detached (snd (snd st)) @ [] \<and>
        sys (fst st) = sys (fst st) @ close_calls (heap (fst st)) [] \<and>
        (\<forall>c. sockfd (heap (fst st) c) = sockfd (heap (fst st) c)) \<and>
        fst ` set (mappings (layer (fst st))) = fst ` set (mappings (layer (fst st))) - set []"
      by (simp add: close_calls_def)
    then show ?thesis unfolding eq by blast
  qed
qed

lemma getJobs_unfold:
  "ServerNetworkLayerTCP_getJobs env w =
     (if ge_select env < 0 then (w, [])
      else if (if serversockfd (layer w) \<in> ge_fdset env then ge_select env - 1 else ge_select env) = 0 \<or>
              \<not> ge_malloc_jobs env
      then (if serversockfd (layer w) \<in> ge_fdset env \<and> ge_accept env \<ge> 0
            then snd (ServerNetworkLayerTCP_add env w (ge_accept env)) else w, [])
      else (fst (getJobs_loop env
                  (size_t_of (if serversockfd (layer w) \<in> ge_fdset env then ge_select env - 1
                              else ge_select env)) 0
                  (if serversockfd (layer w) \<in> ge_fdset env \<and> ge_accept env \<ge> 0
                   then snd (ServerNetworkLayerTCP_add env w (ge_accept env)) else w,
                   UA_BYTESTRING_NULL, [])),
            snd (snd (getJobs_loop env
                  (size_t_of (if serversockfd (layer w) \<in> ge_fdset env then ge_select env - 1
                              else ge_select env)) 0
                  (if serversockfd (layer w) \<in> ge_fdset env \<and> ge_accept env \<ge> 0
                   then snd (ServerNetworkLayerTCP_add env w (ge_accept env)) else w,
                   UA_BYTESTRING_NULL, [])))))"
  by (simp add: ServerNetworkLayerTCP_getJobs_def Let_def split: prod.splits)

lemma add_effect:
  "sys (snd (ServerNetworkLayerTCP_add env w newsockfd)) = sys w \<and>
   fst ` set (mappings (layer w)) \<subseteq>
     fst ` set (mappings (layer (snd (ServerNetworkLayerTCP_add env w newsockfd))))"
  by (auto simp: ServerNetworkLayerTCP_add_def Let_def split: option.splits)

lemma getJobs_effect:
  assumes "distinct (map fst (mappings (layer w)))"
    and "\<forall>c. ge_malloc_connection env = Some c \<longrightarrow> c \<notin> fst ` set (mappings (layer w))"
  shows "sys (fst (ServerNetworkLayerTCP_getJobs env w)) =
           sys w @ close_calls (heap (fst (ServerNetworkLayerTCP_getJobs env w)))
                     (detached (snd (ServerNetworkLayerTCP_getJobs env w))) \<and>
         (\<forall>c. c \<in> fst ` set (mappings (layer w)) \<and>
              c \<notin> fst ` set (mappings (layer (fst (ServerNetworkLayerTCP_getJobs env w)))) \<longrightarrow>
              c \<in> set (detached (snd (ServerNetworkLayerTCP_getJobs env w))))"
proof -
  let ?w1 = "if serversockfd (layer w) \<in> ge_fdset env \<and> ge_accept env \<ge> 0
             then snd (ServerNetworkLayerTCP_add env w (ge_accept env)) else w"
  let ?rs = "if serversockfd (layer w) \<in> ge_fdset env then ge_select env - 1 else ge_select env"
  let ?st = "getJobs_loop env (size_t_of ?rs) 0 (?w1, UA_BYTESTRING_NULL, [])"
  have d1: "distinct (map fst (mappings (layer ?w1)))"
    using assms add_keeps_distinct [OF assms] by simp
  have s1: "sys ?w1 = sys w"
    using add_effect [of env w "ge_accept env"] by simp
  have m1: "fst ` set (mappings (layer w)) \<subseteq> fst ` set (mappings (layer ?w1))"
    using add_effect [of env w "ge_accept env"] by simp
  show ?thesis
  proof (cases "ge_select env < 0")
    case True
    then have "ServerNetworkLayerTCP_getJobs env w = (w, [])"
      by (simp only: getJobs_unfold [of env w] if_True)
    then show ?thesis by (simp add: close_calls_def)
  next
    case False
    note nonneg = this
    show ?thesis
    proof (cases "?rs = 0 \<or> \<not> ge_malloc_jobs env")
      case True
      with nonneg have r: "ServerNetworkLayerTCP_getJobs env w = (?w1, [])"
        by (simp only: getJobs_unfold [of env w] if_True if_False simp_thms)
      have "sys ?w1 = sys w @ close_calls (heap ?w1) (detached [])"
        using s1 by (simp add: close_calls_def)
      moreover have "\<forall>c. c \<in> fst ` set (mappings (layer w)) \<and>
          c \<notin> fst ` set (mappings (layer ?w1)) \<longrightarrow> c \<in> set (detached [])"
        using m1 by blast
      ultimately show ?thesis
        unfolding r fst_conv snd_conv by blast
    next
      case False
      with nonneg have r: "ServerNetworkLayerTCP_getJobs env w = (fst ?st, snd (snd ?st))"
        by (simp only: getJobs_unfold [of env w] if_True if_False simp_thms)
      have "distinct (map fst (mappings (layer (fst (?w1, UA_BYTESTRING_NULL, [] :: UA_Job list)))))"
        using d1 by (simp only: fst_conv)
      from getJobs_loop_effect [OF this, of env "size_t_of ?rs" 0]
      have "\<exists>ds. detached (snd (snd ?st)) = detached [] @ ds \<and>
          sys (fst ?st) = sys ?w1 @ close_calls (heap ?w1) ds \<and>
          (\<forall>c. sockfd (heap (fst ?st) c) = sockfd (heap ?w1 c)) \<and>
          fst ` set (mappings (layer (fst ?st))) = fst ` set (mappings (layer ?w1)) - set ds"
        by (simp only: fst_conv snd_conv)
      then obtain ds where j0: "detached (snd (snd ?st)) = detached [] @ ds"
        and s: "sys (fst ?st) = sys ?w1 @ close_calls (heap ?w1) ds"
        and f: "\<forall>c. sockfd (heap (fst ?st) c) = sockfd (heap ?w1 c)"
        and m: "fst ` set (mappings (layer (fst ?st))) = fst ` set (mappings (layer ?w1)) - set ds"
        by blast
      from j0 have j: "detached (snd (snd ?st)) = ds"
        by simp
      have "close_calls (heap (fst ?st)) ds = close_calls (heap ?w1) ds"
        using f by (rule close_calls_cong)
      with s s1 have a: "sys (fst ?st) = sys w @ close_calls (heap (fst ?st)) ds"
        by simp
      have b: "\<forall>c. c \<in> fst ` set (mappings (layer w)) \<and>
          c \<notin> fst ` set (mappings (layer (fst ?st))) \<longrightarrow> c \<in> set ds"
        using m m1 by blast
      from a b j show ?thesis
        unfolding r fst_conv snd_conv by simp
    qed
  qed
qed

lemma getJobs_keeps:
  assumes "distinct (map fst (mappings (layer w)))"
    and "\<forall>c. ge_malloc_connection env = Some c \<longrightarrow> c \<notin> fst ` set (mappings (layer w))"
  shows "distinct (map fst (mappings (layer (fst (ServerNetworkLayerTCP_getJobs env w))))) \<and>
         detached_gone (mappings (layer (fst (ServerNetworkLayerTCP_getJobs env w))))
           (snd (ServerNetworkLayerTCP_getJobs env w))"
proof -
  let ?w1 = "if serversockfd (layer w) \<in> ge_fdset env \<and> ge_accept env \<ge> 0
             then snd (ServerNetworkLayerTCP_add env w (ge_accept env)) else w"
  let ?rs = "if serversockfd (layer w) \<in> ge_fdset env then ge_select env - 1 else ge_select env"
  let ?st = "getJobs_loop env (size_t_of ?rs) 0 (?w1, UA_BYTESTRING_NULL, [])"
  have d1: "distinct (map fst (mappings (layer ?w1)))"
    using assms add_keeps_distinct [OF assms] by simp
  have g0: "detached_gone ms []" for ms
    by (simp add: detached_gone_def)
  have keep: "distinct (map fst (mappings (layer (fst ?st)))) \<and>
      detached_gone (mappings (layer (fst ?st))) (snd (snd ?st))"
    by (rule getJobs_loop_keeps) (simp_all add: d1 g0 del: split_paired_All)
  show ?thesis
  proof (cases "ge_select env < 0")
    case True
    then have "ServerNetworkLayerTCP_getJobs env w = (w, [])"
      by (simp only: getJobs_unfold [of env w] if_True)
    with assms(1) g0 show ?thesis by simp
  next
    case False
    note nonneg = this
    show ?thesis
    proof (cases "?rs = 0 \<or> \<not> ge_malloc_jobs env")
      case True
      with nonneg have "ServerNetworkLayerTCP_getJobs env w = (?w1, [])"
        by (simp only: getJobs_unfold [of env w] if_True if_False simp_thms)
      with d1 g0 show ?thesis by (simp only: fst_conv snd_conv)
    next
      case False
      with nonneg have "ServerNetworkLayerTCP_getJobs env w = (fst ?st, snd (snd ?st))"
        by (simp only: getJobs_unfold [of env w] if_True if_False simp_thms)
      with keep show ?thesis by (simp only: fst_conv snd_conv)
    qed
  qed
qed

lemma index_of_nth:
  "distinct (map fst ms) \<Longrightarrow> i < length ms \<Longrightarrow> index_of (fst (ms ! i)) ms = i"
proof (induction ms arbitrary: i)
  case Nil
  then show ?case by simp
next
  case (Cons m ms)
  show ?case
  proof (cases i)
    case 0
    then show ?thesis by simp
  next
    case (Suc n)
    with Cons.prems have n: "n < length ms" and d: "distinct (map fst ms)" by simp_all
    from n have "ms ! n \<in> set ms" by simp
    then have "fst (ms ! n) \<in> fst ` set ms" by (rule imageI)
    moreover from Cons.prems have "fst m \<notin> fst ` set ms" by simp
    ultimately have "fst m \<noteq> fst (ms ! n)" by metis
    with Cons.IH [OF d n] Suc show ?thesis by simp
  qed
qed

lemma getJobs_entry_table:
  assumes "i < length (mappings (layer w))"
    and "distinct (map fst (mappings (layer w)))"
    and "getJobs_entry env i (w, buf, js) = (w', buf', js')"
  shows "\<exists>ds. detached js' = detached js @ ds \<and>
              mappings (layer w') = foldl (\<lambda>ms c. swap_with_last c ms) (mappings (layer w)) ds"
proof -
  let ?ms = "mappings (layer w)"
  from getJobs_entry_effect [OF assms(3)]
  have "(mappings (layer w') = ?ms \<and> detached js' = detached js \<and> sys w' = sys w) \<or>
          (mappings (layer w') = butlast (?ms[i := last ?ms]) \<and>
           detached js' = detached js @ [fst (?ms ! i)] \<and>
           sys w' = sys w @ close_calls (heap w) [fst (?ms ! i)])"
    by blast
  then show ?thesis
  proof
    assume "mappings (layer w') = ?ms \<and> detached js' = detached js \<and> sys w' = sys w"
    then have "detached js' = detached js @ [] \<and>
        mappings (layer w') = foldl (\<lambda>ms c. swap_with_last c ms) ?ms []"
      by simp
    then show ?thesis by (rule exI)
  next
    assume b: "mappings (layer w') = butlast (?ms[i := last ?ms]) \<and>
           detached js' = detached js @ [fst (?ms ! i)] \<and>
           sys w' = sys w @ close_calls (heap w) [fst (?ms ! i)]"
    have "swap_with_last (fst (?ms ! i)) ?ms = butlast (?ms[i := last ?ms])"
      by (simp add: swap_with_last_def index_of_nth [OF assms(2) assms(1)])
    with b have "detached js' = detached js @ [fst (?ms ! i)] \<and>
        mappings (layer w') = foldl (\<lambda>ms c. swap_with_last c ms) ?ms [fst (?ms ! i)]"
      by simp
    then show ?thesis by (rule exI)
  qed
qed

lemma getJobs_loop_table:
  "distinct (map fst (mappings (layer (fst st)))) \<Longrightarrow>
   \<exists>ds. detached (snd (snd (getJobs_loop env resultsize i st))) = detached (snd (snd st)) @ ds \<and>
        mappings (layer (fst (getJobs_loop env resultsize i st))) =
          foldl (\<lambda>ms c. swap_with_last c ms) (mappings (layer (fst st))) ds"
proof (induction env resultsize i st rule: getJobs_loop.induct)
  case (1 env resultsize i st)
  show ?case
  proof (cases "i < length (mappings (layer (fst st))) \<and> length (snd (snd st)) < resultsize")
    case True
    obtain w buf js where st: "st = (w, buf, js)" by (cases st)
    obtain w' buf' js' where e: "getJobs_entry env i (w, buf, js) = (w', buf', js')"
      by (cases "getJobs_entry env i (w, buf, js)")
    from True st have i: "i < length (mappings (layer w))" by simp
    from "1.prems" st have d: "distinct (map fst (mappings (layer w)))" by simp
    from getJobs_entry_step [OF i d e] have d': "distinct (map fst (mappings (layer w')))"
      by blast
    from getJobs_entry_table [OF i d e] obtain ds1 where
      j1: "detached js' = detached js @ ds1"
      and m1: "mappings (layer w') = foldl (\<lambda>ms c. swap_with_last c ms) (mappings (layer w)) ds1"
      by blast
    let ?r = "getJobs_loop env resultsize (i + 1) (w', buf', js')"
    from "1.IH" [OF True] d' st e obtain ds2 where
      j2: "detached (snd (snd ?r)) = detached js' @ ds2"
      and m2: "mappings (layer (fst ?r)) =
          foldl (\<lambda>ms c. swap_with_last c ms) (mappings (layer w')) ds2"
      by auto
    have "getJobs_loop env resultsize i st =
        getJobs_loop env resultsize (i + 1) (getJobs_entry env i st)"
      using True
      by (simp only: getJobs_loop.simps [of env resultsize i st] if_True if_False simp_thms)
    with st e have eq: "getJobs_loop env resultsize i (w, buf, js) = ?r"
      by simp
    have "detached (snd (snd ?r)) = detached js @ (ds1 @ ds2) \<and>
        mappings (layer (fst ?r)) =
          foldl (\<lambda>ms c. swap_with_last c ms) (mappings (layer w)) (ds1 @ ds2)"
      using j1 j2 m1 m2 by simp
    then show ?thesis
      unfolding st fst_conv snd_conv eq by (rule exI)
  next
    case False
    then have eq: "getJobs_loop env resultsize i st = st"
      by (simp only: getJobs_loop.simps [of env resultsize i st] if_True if_False simp_thms)
    have "detached (snd (snd st)) = detached (snd (snd st)) @ [] \<and>
        mappings (layer (fst st)) =
          foldl (\<lambda>ms c. swap_with_last c ms) (mappings (layer (fst st))) []"
      by simp
    then show ?thesis unfolding eq by (rule exI)
  qed
qed

lemma getJobs_table:
  assumes "distinct (map fst (mappings (layer w)))"
    and "\<forall>c. ge_malloc_connection env = Some c \<longrightarrow> c \<notin> fst ` set (mappings (layer w))"
  shows "mappings (layer (fst (ServerNetworkLayerTCP_getJobs env w))) =
           foldl (\<lambda>ms c. swap_with_last c ms)
             (mappings (layer (if ge_select env \<ge> 0 \<and> serversockfd (layer w) \<in> ge_fdset env \<and>
                                  ge_accept env \<ge> 0
                               then snd (ServerNetworkLayerTCP_add env w (ge_accept env)) else w)))
             (detached (snd (ServerNetworkLayerTCP_getJobs env w)))"
proof -
  let ?w1 = "if serversockfd (layer w) \<in> ge_fdset env \<and> ge_accept env \<ge> 0
             then snd (ServerNetworkLayerTCP_add env w (ge_accept env)) else w"
  let ?rs = "if serversockfd (layer w) \<in> ge_fdset env then ge_select env - 1 else ge_select env"
  let ?st = "getJobs_loop env (size_t_of ?rs) 0 (?w1, UA_BYTESTRING_NULL, [])"
  have d1: "distinct (map fst (mappings (layer ?w1)))"
    using assms add_keeps_distinct [OF assms] by simp
  show ?thesis
  proof (cases "ge_select env < 0")
    case True
    then have "ServerNetworkLayerTCP_getJobs env w = (w, [])"
      by (simp only: getJobs_unfold [of env w] if_True)
    with True show ?thesis by simp
  next
    case False
    note nonneg = this
    then have w1: "(if ge_select env \<ge> 0 \<and> serversockfd (layer w) \<in> ge_fdset env \<and>
                                  ge_accept env \<ge> 0
                    then snd (ServerNetworkLayerTCP_add env w (ge_accept env)) else w) = ?w1"
      by simp
    show ?thesis
    proof (cases "?rs = 0 \<or> \<not> ge_malloc_jobs env")
      case True
      with nonneg have r: "ServerNetworkLayerTCP_getJobs env w = (?w1, [])"
        by (simp only: getJobs_unfold [of env w] if_True if_False simp_thms)
      show ?thesis
        unfolding w1 r fst_conv snd_conv by simp
    next
      case False
      with nonneg have r: "ServerNetworkLayerTCP_getJobs env w = (fst ?st, snd (snd ?st))"
        by (simp only: getJobs_unfold [of env w] if_True if_False simp_thms)
      have "distinct (map fst (mappings (layer (fst (?w1, UA_BYTESTRING_NULL, [] :: UA_Job list)))))"
        using d1 by (simp only: fst_conv)
      from getJobs_loop_table [OF this, of env "size_t_of ?rs" 0]
      have "\<exists>ds. detached (snd (snd ?st)) = detached [] @ ds \<and>
          mappings (layer (fst ?st)) = foldl (\<lambda>ms c. swap_with_last c ms) (mappings (layer ?w1)) ds"
        by (simp only: fst_conv snd_conv)
      then obtain ds where j0: "detached (snd (snd ?st)) = detached [] @ ds"
        and m: "mappings (layer (fst ?st)) =
            foldl (\<lambda>ms c. swap_with_last c ms) (mappings (layer ?w1)) ds"
        by blast
      from j0 have "detached (snd (snd ?st)) = ds" by simp
      with m show ?thesis
        unfolding w1 r fst_conv snd_conv by simp
    qed
  qed
qed

text \<open>
  C1. Whenever the loop of \<^verbatim>\<open>getJobs\<close> is at a table entry whose socket is ready and
  the receive on it reports connection-closed, it appends a detach job for the entry's
  connection directly followed by the delayed call of \<^verbatim>\<open>FreeConnectionCallback\<close> on the
  same connection, and the table becomes the old one with the last entry copied over this
  entry and the length reduced by one. A receive without timeout reports connection-closed
  exactly when it closes the socket, which leaves a shutdown and a release in the list of
  system calls. For a table that holds every connection once (and an allocator that returns
  a pointer not in the table for an accepted connection), one call of \<^verbatim>\<open>getJobs\<close>
  as a whole: the system calls it adds are exactly the shutdown and release of the
  connections of the detach jobs it returns, in the order of the jobs, so every entry it
  saw closed has its detach job in the returned list; the table it leaves is the table
  after the accept with the connections of the returned detach jobs removed one after the
  other, each by copying the last entry over its entry; every connection that was in the
  table and is no longer there has a detach job directly followed by its free job in the
  list; every detach job in the list is directly followed by the free job of the same
  connection, and that connection is not in the table the call leaves; and the table still
  holds every connection once.
\<close>

theorem getJobs_detach_then_free:
  assumes "distinct (map fst (mappings (layer w)))"
    and "\<forall>c. ge_malloc_connection env = Some c \<longrightarrow> c \<notin> fst ` set (mappings (layer w))"
  shows "(\<forall>i w0 buf js.
            i < length (mappings (layer w0)) \<and> snd (mappings (layer w0) ! i) \<in> ge_fdset env \<and>
            fst (socket_recv (ge_recv env (fst (mappings (layer w0) ! i)))
                   (heap w0 (fst (mappings (layer w0) ! i)), sys w0) buf 0) =
              UA_STATUSCODE_BADCONNECTIONCLOSED \<longrightarrow>
            snd (snd (getJobs_entry env i (w0, buf, js))) =
              js @ [DETACHCONNECTION (fst (mappings (layer w0) ! i)),
                    METHODCALL_DELAYED FreeConnectionCallback (fst (mappings (layer w0) ! i))] \<and>
            mappings (layer (fst (getJobs_entry env i (w0, buf, js)))) =
              butlast ((mappings (layer w0))[i := last (mappings (layer w0))])) \<and>
         (\<forall>renv connection sy buf.
            snd (snd (snd (socket_recv renv (connection, sy) buf 0))) =
              sy @ (if fst (socket_recv renv (connection, sy) buf 0) = UA_STATUSCODE_BADCONNECTIONCLOSED
                    then [SHUTDOWN (sockfd connection), CLOSESOCKET (sockfd connection)] else [])) \<and>
         sys (fst (ServerNetworkLayerTCP_getJobs env w)) =
           sys w @ close_calls (heap (fst (ServerNetworkLayerTCP_getJobs env w)))
                     (detached (snd (ServerNetworkLayerTCP_getJobs env w))) \<and>
         mappings (layer (fst (ServerNetworkLayerTCP_getJobs env w))) =
           foldl (\<lambda>ms c. swap_with_last c ms)
             (mappings (layer (if ge_select env \<ge> 0 \<and> serversockfd (layer w) \<in> ge_fdset env \<and>
                                  ge_accept env \<ge> 0
                               then snd (ServerNetworkLayerTCP_add env w (ge_accept env)) else w)))
             (detached (snd (ServerNetworkLayerTCP_getJobs env w))) \<and>
         (\<forall>c. c \<in> fst ` set (mappings (layer w)) \<and>
              c \<notin> fst ` set (mappings (layer (fst (ServerNetworkLayerTCP_getJobs env w)))) \<longrightarrow>
              (\<exists>k. Suc k < length (snd (ServerNetworkLayerTCP_getJobs env w)) \<and>
                   snd (ServerNetworkLayerTCP_getJobs env w) ! k = DETACHCONNECTION c \<and>
                   snd (ServerNetworkLayerTCP_getJobs env w) ! Suc k =
                     METHODCALL_DELAYED FreeConnectionCallback c)) \<and>
         (\<forall>k c. k < length (snd (ServerNetworkLayerTCP_getJobs env w)) \<and>
                 snd (ServerNetworkLayerTCP_getJobs env w) ! k = DETACHCONNECTION c \<longrightarrow>
            Suc k < length (snd (ServerNetworkLayerTCP_getJobs env w)) \<and>
            snd (ServerNetworkLayerTCP_getJobs env w) ! Suc k =
              METHODCALL_DELAYED FreeConnectionCallback c \<and>
            c \<notin> fst ` set (mappings (layer (fst (ServerNetworkLayerTCP_getJobs env w))))) \<and>
         distinct (map fst (mappings (layer (fst (ServerNetworkLayerTCP_getJobs env w)))))"
proof -
  let ?r = "ServerNetworkLayerTCP_getJobs env w"
  have step: "\<forall>i w0 buf js.
            i < length (mappings (layer w0)) \<and> snd (mappings (layer w0) ! i) \<in> ge_fdset env \<and>
            fst (socket_recv (ge_recv env (fst (mappings (layer w0) ! i)))
                   (heap w0 (fst (mappings (layer w0) ! i)), sys w0) buf 0) =
              UA_STATUSCODE_BADCONNECTIONCLOSED \<longrightarrow>
            snd (snd (getJobs_entry env i (w0, buf, js))) =
              js @ [DETACHCONNECTION (fst (mappings (layer w0) ! i)),
                    METHODCALL_DELAYED FreeConnectionCallback (fst (mappings (layer w0) ! i))] \<and>
            mappings (layer (fst (getJobs_entry env i (w0, buf, js)))) =
              butlast ((mappings (layer w0))[i := last (mappings (layer w0))])"
    by (auto simp: getJobs_entry_def Let_def split: prod.splits)
  have calls: "\<forall>renv connection sy buf.
            snd (snd (snd (socket_recv renv (connection, sy) buf 0))) =
              sy @ (if fst (socket_recv renv (connection, sy) buf 0) = UA_STATUSCODE_BADCONNECTIONCLOSED
                    then [SHUTDOWN (sockfd connection), CLOSESOCKET (sockfd connection)] else [])"
    using socket_recv_calls by blast
  from getJobs_keeps [OF assms]
  have dist: "distinct (map fst (mappings (layer (fst ?r))))"
    and gone: "detached_gone (mappings (layer (fst ?r))) (snd ?r)"
    by blast+
  from gone have pairs: "\<forall>k c. k < length (snd ?r) \<and> snd ?r ! k = DETACHCONNECTION c \<longrightarrow>
            Suc k < length (snd ?r) \<and>
            snd ?r ! Suc k = METHODCALL_DELAYED FreeConnectionCallback c \<and>
            c \<notin> fst ` set (mappings (layer (fst ?r)))"
    unfolding detached_gone_def by blast
  from getJobs_effect [OF assms]
  have log: "sys (fst ?r) = sys w @ close_calls (heap (fst ?r)) (detached (snd ?r))"
    and left: "\<forall>c. c \<in> fst ` set (mappings (layer w)) \<and>
              c \<notin> fst ` set (mappings (layer (fst ?r))) \<longrightarrow> c \<in> set (detached (snd ?r))"
    by blast+
  have handed: "\<forall>c. c \<in> fst ` set (mappings (layer w)) \<and>
              c \<notin> fst ` set (mappings (layer (fst ?r))) \<longrightarrow>
              (\<exists>k. Suc k < length (snd ?r) \<and> snd ?r ! k = DETACHCONNECTION c \<and>
                   snd ?r ! Suc k = METHODCALL_DELAYED FreeConnectionCallback c)"
  proof (intro allI impI)
    fix c
    assume "c \<in> fst ` set (mappings (layer w)) \<and> c \<notin> fst ` set (mappings (layer (fst ?r)))"
    with left have "c \<in> set (detached (snd ?r))" by blast
    then have "DETACHCONNECTION c \<in> set (snd ?r)" by (simp add: detached_mem)
    then obtain k where k: "k < length (snd ?r)" "snd ?r ! k = DETACHCONNECTION c"
      by (auto simp: in_set_conv_nth)
    with pairs have "Suc k < length (snd ?r) \<and>
        snd ?r ! Suc k = METHODCALL_DELAYED FreeConnectionCallback c"
      by blast
    with k show "\<exists>k. Suc k < length (snd ?r) \<and> snd ?r ! k = DETACHCONNECTION c \<and>
        snd ?r ! Suc k = METHODCALL_DELAYED FreeConnectionCallback c"
      by blast
  qed
  note table = getJobs_table [OF assms]
  from step calls log table handed pairs dist show ?thesis
    by (intro conjI)
qed

lemmas getJobs_eval = ServerNetworkLayerTCP_getJobs_def getJobs_loop.simps getJobs_entry_def
  socket_recv_def socket_close_def recv_into_def UA_ByteString_deleteMembers_def
  UA_BYTESTRING_NULL_def size_t_of_def example_getJobs_env_def example_closed_env_def
  example_world_def example_recv_env_def example_connection_def Let_def


theorem getJobs_detach_then_free_witness:
  "distinct (map fst (mappings (layer example_world))) \<and>
   snd (ServerNetworkLayerTCP_getJobs example_getJobs_env example_world) =
     [DETACHCONNECTION 1, METHODCALL_DELAYED FreeConnectionCallback 1,
      BINARYMESSAGE_NETWORKLAYER 2 \<lparr>length_bs = 3, data_bs = Some [1, 2, 3, 0, 0, 0, 0, 0]\<rparr>] \<and>
   mappings (layer (fst (ServerNetworkLayerTCP_getJobs example_getJobs_env example_world))) =
     [(3, 7), (2, 6)] \<and>
   sys (fst (ServerNetworkLayerTCP_getJobs example_getJobs_env example_world)) =
     [SHUTDOWN 5, CLOSESOCKET 5] \<and>
   snd (ServerNetworkLayerTCP_getJobs example_closed_env example_world) =
     [DETACHCONNECTION 1, METHODCALL_DELAYED FreeConnectionCallback 1,
      DETACHCONNECTION 2, METHODCALL_DELAYED FreeConnectionCallback 2] \<and>
   mappings (layer (fst (ServerNetworkLayerTCP_getJobs example_closed_env example_world))) =
     [(3, 7)] \<and>
   sys (fst (ServerNetworkLayerTCP_getJobs example_closed_env example_world)) =
     [SHUTDOWN 5, CLOSESOCKET 5, SHUTDOWN 6, CLOSESOCKET 6]"
proof -
  have d: "distinct (map fst (mappings (layer example_world)))"
    by (simp add: example_world_def)
  have f: "\<forall>c. ge_malloc_connection example_getJobs_env = Some c \<longrightarrow>
      c \<notin> fst ` set (mappings (layer example_world))"
    by (simp add: example_getJobs_env_def)
  have f2: "\<forall>c. ge_malloc_connection example_closed_env = Some c \<longrightarrow>
      c \<notin> fst ` set (mappings (layer example_world))"
    by (simp add: example_closed_env_def example_getJobs_env_def)
  have js: "snd (ServerNetworkLayerTCP_getJobs example_getJobs_env example_world) =
     [DETACHCONNECTION 1, METHODCALL_DELAYED FreeConnectionCallback 1,
      BINARYMESSAGE_NETWORKLAYER 2 \<lparr>length_bs = 3, data_bs = Some [1, 2, 3, 0, 0, 0, 0, 0]\<rparr>]"
    by (simp add: getJobs_eval eval_nat_numeral)
  have ms: "mappings (layer (fst (ServerNetworkLayerTCP_getJobs example_getJobs_env example_world))) =
     [(3, 7), (2, 6)]"
    by (simp add: getJobs_eval eval_nat_numeral)
  have sockfd1: "sockfd (heap (fst (ServerNetworkLayerTCP_getJobs example_getJobs_env example_world)) (Suc 0)) = 5"
    by (simp add: getJobs_eval eval_nat_numeral)
  have js2: "snd (ServerNetworkLayerTCP_getJobs example_closed_env example_world) =
     [DETACHCONNECTION 1, METHODCALL_DELAYED FreeConnectionCallback 1,
      DETACHCONNECTION 2, METHODCALL_DELAYED FreeConnectionCallback 2]"
    by (simp add: getJobs_eval eval_nat_numeral)
  have ms2: "mappings (layer (fst (ServerNetworkLayerTCP_getJobs example_closed_env example_world))) =
     [(3, 7)]"
    by (simp add: getJobs_eval eval_nat_numeral)
  have sockfd2: "sockfd (heap (fst (ServerNetworkLayerTCP_getJobs example_closed_env example_world)) (Suc 0)) = 5"
    "sockfd (heap (fst (ServerNetworkLayerTCP_getJobs example_closed_env example_world)) 2) = 6"
    by (simp_all add: getJobs_eval eval_nat_numeral)
  have s0: "sys example_world = []"
    by (simp add: example_world_def)
  from getJobs_detach_then_free [OF d f]
  have "sys (fst (ServerNetworkLayerTCP_getJobs example_getJobs_env example_world)) =
      sys example_world @
      close_calls (heap (fst (ServerNetworkLayerTCP_getJobs example_getJobs_env example_world)))
        (detached (snd (ServerNetworkLayerTCP_getJobs example_getJobs_env example_world)))"
    by blast
  then have sy: "sys (fst (ServerNetworkLayerTCP_getJobs example_getJobs_env example_world)) =
      [SHUTDOWN 5, CLOSESOCKET 5]"
    by (simp add: js s0 sockfd1 close_calls_def)
  from getJobs_detach_then_free [OF d f2]
  have "sys (fst (ServerNetworkLayerTCP_getJobs example_closed_env example_world)) =
      sys example_world @
      close_calls (heap (fst (ServerNetworkLayerTCP_getJobs example_closed_env example_world)))
        (detached (snd (ServerNetworkLayerTCP_getJobs example_closed_env example_world)))"
    by blast
  then have sy2: "sys (fst (ServerNetworkLayerTCP_getJobs example_closed_env example_world)) =
      [SHUTDOWN 5, CLOSESOCKET 5, SHUTDOWN 6, CLOSESOCKET 6]"
    by (simp add: js2 s0 sockfd2 close_calls_def)
  from d js ms sy js2 ms2 sy2 show ?thesis by blast
qed

end
